theory Spec2Isabelle
  imports
    Complex_Main
    "HOL-Library.Char_ord"
    "HOL-Library.List_Lexorder"
    "HOL-Library.Product_Lexorder"
begin

section \<open>Numbers as the data frames hold them\<close>

text \<open>
  A numeric cell of a data frame is a float64: a finite number, an infinity or NaN, and
  NaN is what the frame library calls a missing value. The model keeps the three special
  values and their IEEE rules (NaN is absorbing, every comparison with NaN is false,
  a nonzero finite number divided by zero is an infinity, zero by zero is NaN) and
  idealises the finite part as exact real arithmetic: rounding, overflow to an infinity
  and the sign of zero are not modelled, so an equation proved here holds in the code
  up to floating-point rounding.
\<close>

datatype fval = Fin real | PInf | NInf | NaN

fun isna :: "fval \<Rightarrow> bool" where
  "isna NaN = True"
| "isna _ = False"

fun isinf :: "fval \<Rightarrow> bool" where
  "isinf PInf = True"
| "isinf NInf = True"
| "isinf _ = False"

definition inf_of_sign :: "real \<Rightarrow> fval" where
  "inf_of_sign s = (if 0 < s then PInf else if s < 0 then NInf else NaN)"

fun fneg :: "fval \<Rightarrow> fval" where
  "fneg (Fin a) = Fin (- a)"
| "fneg PInf = NInf"
| "fneg NInf = PInf"
| "fneg NaN = NaN"

fun fabs :: "fval \<Rightarrow> fval" where
  "fabs (Fin a) = Fin \<bar>a\<bar>"
| "fabs PInf = PInf"
| "fabs NInf = PInf"
| "fabs NaN = NaN"

fun fadd :: "fval \<Rightarrow> fval \<Rightarrow> fval" where
  "fadd (Fin a) (Fin b) = Fin (a + b)"
| "fadd (Fin a) PInf = PInf"
| "fadd (Fin a) NInf = NInf"
| "fadd PInf (Fin b) = PInf"
| "fadd NInf (Fin b) = NInf"
| "fadd PInf PInf = PInf"
| "fadd NInf NInf = NInf"
| "fadd PInf NInf = NaN"
| "fadd NInf PInf = NaN"
| "fadd NaN _ = NaN"
| "fadd _ NaN = NaN"

definition fsub :: "fval \<Rightarrow> fval \<Rightarrow> fval" where
  "fsub a b = fadd a (fneg b)"

fun fmul :: "fval \<Rightarrow> fval \<Rightarrow> fval" where
  "fmul (Fin a) (Fin b) = Fin (a * b)"
| "fmul (Fin a) PInf = inf_of_sign a"
| "fmul (Fin a) NInf = inf_of_sign (- a)"
| "fmul PInf (Fin b) = inf_of_sign b"
| "fmul NInf (Fin b) = inf_of_sign (- b)"
| "fmul PInf PInf = PInf"
| "fmul NInf NInf = PInf"
| "fmul PInf NInf = NInf"
| "fmul NInf PInf = NInf"
| "fmul NaN _ = NaN"
| "fmul _ NaN = NaN"

fun fdiv :: "fval \<Rightarrow> fval \<Rightarrow> fval" where
  "fdiv (Fin a) (Fin b) = (if b = 0 then inf_of_sign a else Fin (a / b))"
| "fdiv (Fin a) PInf = Fin 0"
| "fdiv (Fin a) NInf = Fin 0"
| "fdiv PInf (Fin b) = (if 0 \<le> b then PInf else NInf)"
| "fdiv NInf (Fin b) = (if 0 \<le> b then NInf else PInf)"
| "fdiv PInf PInf = NaN"
| "fdiv NInf NInf = NaN"
| "fdiv PInf NInf = NaN"
| "fdiv NInf PInf = NaN"
| "fdiv NaN _ = NaN"
| "fdiv _ NaN = NaN"

fun flt :: "fval \<Rightarrow> fval \<Rightarrow> bool" where
  "flt (Fin a) (Fin b) = (a < b)"
| "flt (Fin a) PInf = True"
| "flt NInf (Fin b) = True"
| "flt NInf PInf = True"
| "flt _ _ = False"

definition fgt :: "fval \<Rightarrow> fval \<Rightarrow> bool" where
  "fgt a b = flt b a"

text \<open>
  \<open>Series.sum()\<close> and \<open>Series.mean()\<close> skip missing values: the sum of no value is 0,
  the mean of no value is NaN.
\<close>

definition series_sum :: "fval list \<Rightarrow> fval" where
  "series_sum xs = foldl fadd (Fin 0) (filter (\<lambda>v. \<not> isna v) xs)"

definition series_mean :: "fval list \<Rightarrow> fval" where
  "series_mean xs =
     (let ys = filter (\<lambda>v. \<not> isna v) xs
      in if ys = [] then NaN else fdiv (series_sum ys) (Fin (real (length ys))))"

section \<open>Data frames and errors\<close>

text \<open>
  A cell is a float or a text; a row maps column names to cells; a frame is the list of
  its column names and its rows in index order. A cell under a name that is not a column
  of the frame is never read: every read goes through \<open>getitem\<close>, \<open>getnum\<close> or
  \<open>row_getitem\<close>, which raise \<open>KeyError\<close> for a name that is not a column.
  \<open>getnum\<close> reads a column for arithmetic and comparison, which raise \<open>TypeError\<close> on a
  text cell.
\<close>

datatype error = KeyError | TypeError | ValueError | IndexError | OverflowError

datatype cell = Num fval | Str string

type_synonym row = "string \<Rightarrow> cell"

record frame =
  columns :: "string list"
  rows :: "row list"

definition bind_res :: "error + 'a \<Rightarrow> ('a \<Rightarrow> error + 'b) \<Rightarrow> error + 'b" where
  "bind_res m f = (case m of Inl e \<Rightarrow> Inl e | Inr x \<Rightarrow> f x)"

fun all_res :: "(error + 'a) list \<Rightarrow> error + 'a list" where
  "all_res [] = Inr []"
| "all_res (m # ms) =
     (case m of Inl e \<Rightarrow> Inl e
      | Inr x \<Rightarrow> (case all_res ms of Inl e \<Rightarrow> Inl e | Inr xs \<Rightarrow> Inr (x # xs)))"

fun as_num :: "cell \<Rightarrow> error + fval" where
  "as_num (Num v) = Inr v"
| "as_num (Str s) = Inl TypeError"

definition getitem :: "frame \<Rightarrow> string \<Rightarrow> error + cell list" where
  "getitem df name =
     (if name \<in> set (columns df) then Inr (map (\<lambda>r. r name) (rows df)) else Inl KeyError)"

definition getnum :: "frame \<Rightarrow> string \<Rightarrow> error + fval list" where
  "getnum df name = bind_res (getitem df name) (\<lambda>cs. all_res (map as_num cs))"

definition row_getitem :: "string list \<Rightarrow> row \<Rightarrow> string \<Rightarrow> error + cell" where
  "row_getitem cols r name = (if name \<in> set cols then Inr (r name) else Inl KeyError)"

definition add_column :: "string list \<Rightarrow> string \<Rightarrow> string list" where
  "add_column cols name = (if name \<in> set cols then cols else cols @ [name])"

text \<open>\<open>df[name] = values\<close>, the values in row order, one for each row.\<close>

definition setitem :: "frame \<Rightarrow> string \<Rightarrow> cell list \<Rightarrow> frame" where
  "setitem df name cs =
     \<lparr>columns = add_column (columns df) name,
      rows = map (\<lambda>(r, c). r(name := c)) (zip (rows df) cs)\<rparr>"

definition setnum :: "frame \<Rightarrow> string \<Rightarrow> fval list \<Rightarrow> frame" where
  "setnum df name vs = setitem df name (map Num vs)"

text \<open>\<open>df[name] = scalar\<close>: the scalar in every row.\<close>

definition setscalar :: "frame \<Rightarrow> string \<Rightarrow> cell \<Rightarrow> frame" where
  "setscalar df name c =
     \<lparr>columns = add_column (columns df) name, rows = map (\<lambda>r. r(name := c)) (rows df)\<rparr>"

section \<open>Scalar cleaner\<close>

text \<open>
  \<open>clean_percent_col(s)\<close> is
  \<open>pd.to_numeric(s.astype(str).str.replace('%','').str.replace(',',''), errors='coerce')\<close>.
  The float formatter behind \<open>astype(str)\<close> and the numeric-literal parser behind
  \<open>to_numeric\<close> belong to the frame library, not to this repository: they are the two
  fields of \<open>numlib\<close>, and every theorem holds for each choice of them. The parser
  returns \<open>None\<close> for a text that is not a number; \<open>errors='coerce'\<close> turns that into
  NaN, and the library maps the empty text to NaN before it parses.
\<close>

record numlib =
  float_str :: "fval \<Rightarrow> string"
  parse_float :: "string \<Rightarrow> fval option"

fun astype_str :: "numlib \<Rightarrow> cell \<Rightarrow> string" where
  "astype_str L (Str s) = s"
| "astype_str L (Num v) = float_str L v"

definition str_replace :: "char \<Rightarrow> string \<Rightarrow> string" where
  "str_replace c s = filter (\<lambda>x. x \<noteq> c) s"

definition to_numeric_coerce :: "numlib \<Rightarrow> string \<Rightarrow> fval" where
  "to_numeric_coerce L s =
     (if s = [] then NaN else (case parse_float L s of None \<Rightarrow> NaN | Some v \<Rightarrow> v))"

definition strip_decoration :: "string \<Rightarrow> string" where
  "strip_decoration s = str_replace (CHR '','') (str_replace (CHR ''%'') s)"

definition clean_percent_val :: "numlib \<Rightarrow> cell \<Rightarrow> fval" where
  "clean_percent_val L c = to_numeric_coerce L (strip_decoration (astype_str L c))"

definition clean_percent_col :: "numlib \<Rightarrow> cell list \<Rightarrow> fval list" where
  "clean_percent_col L s = map (clean_percent_val L) s"

text \<open>
  A sample library for evaluating the model on concrete tables: the parser reads an
  unsigned decimal literal (digits, at most one point, at least one digit), the formatter
  is only defined to print NaN as \<open>nan\<close>, which the parser rejects.
\<close>

definition digit_val :: "char \<Rightarrow> nat option" where
  "digit_val c =
     (if CHR ''0'' \<le> c \<and> c \<le> CHR ''9'' then Some (of_char c - of_char (CHR ''0'')) else None)"

fun parse_digits :: "nat \<Rightarrow> string \<Rightarrow> nat option" where
  "parse_digits acc [] = Some acc"
| "parse_digits acc (c # cs) =
     (case digit_val c of None \<Rightarrow> None | Some d \<Rightarrow> parse_digits (10 * acc + d) cs)"

definition parse_decimal :: "string \<Rightarrow> fval option" where
  "parse_decimal s =
     (let ip = takeWhile (\<lambda>c. c \<noteq> CHR ''.'') s;
          fp = drop 1 (dropWhile (\<lambda>c. c \<noteq> CHR ''.'') s)
      in if ip = [] \<and> fp = [] then None
         else (case (parse_digits 0 ip, parse_digits 0 fp) of
                 (Some i, Some f) \<Rightarrow> Some (Fin (real i + real f / 10 ^ length fp))
               | _ \<Rightarrow> None))"

definition sample_lib :: numlib where
  "sample_lib = \<lparr>float_str = (\<lambda>v. ''nan''), parse_float = parse_decimal\<rparr>"

section \<open>Region enricher\<close>

text \<open>
  \<open>process_region_data\<close>: the three percentage columns are cleaned in place, then
  \<open>Urban_Pop = Population * Urban-Pop-Perc / 100\<close> and
  \<open>Rural_Pop = Population - Urban_Pop\<close>.
\<close>

definition clean_in_place :: "numlib \<Rightarrow> frame \<Rightarrow> string \<Rightarrow> error + frame" where
  "clean_in_place L df name =
     bind_res (getitem df name) (\<lambda>s. Inr (setnum df name (clean_percent_col L s)))"

definition process_region_data :: "numlib \<Rightarrow> frame \<Rightarrow> error + frame" where
  "process_region_data L region =
     bind_res (clean_in_place L region ''Urban-Pop-Perc'') (\<lambda>region1.
     bind_res (clean_in_place L region1 ''Yearly-Change'') (\<lambda>region2.
     bind_res (clean_in_place L region2 ''World-Share'') (\<lambda>region3.
     bind_res (getnum region3 ''Population'') (\<lambda>pop.
     bind_res (getnum region3 ''Urban-Pop-Perc'') (\<lambda>perc.
     let region4 = setnum region3 ''Urban_Pop''
                     (map (\<lambda>(p, u). fdiv (fmul p u) (Fin 100)) (zip pop perc)) in
     bind_res (getnum region4 ''Population'') (\<lambda>pop'.
     bind_res (getnum region4 ''Urban_Pop'') (\<lambda>urban.
     Inr (setnum region4 ''Rural_Pop''
            (map (\<lambda>(p, u). fsub p u) (zip pop' urban))))))))))"

section \<open>Country enricher\<close>

text \<open>
  \<open>element * 100\<close> on a cell: a number is multiplied, and a text, as in Python, is
  repeated a hundred times.
\<close>

fun mul_100 :: "cell \<Rightarrow> cell" where
  "mul_100 (Num v) = Num (fmul v (Fin 100))"
| "mul_100 (Str s) = Str (concat (replicate 100 s))"

text \<open>
  \<open>if 'Net_Change_perc' not in country.columns:
     country['Net_Change_perc'] = country.get('Yearly-Change', 0) * 100\<close>.
  \<open>DataFrame.get\<close> returns the column when the frame has it and the default 0 when
  it has no such column; the scalar \<open>0 * 100\<close> is then written to every row.
\<close>

definition net_change_perc :: "frame \<Rightarrow> frame" where
  "net_change_perc country =
     (if ''Net_Change_perc'' \<notin> set (columns country)
      then (case getitem country ''Yearly-Change'' of
              Inr s \<Rightarrow> setitem country ''Net_Change_perc'' (map mul_100 s)
            | Inl e \<Rightarrow> setscalar country ''Net_Change_perc'' (Num (Fin (0 * 100))))
      else country)"

definition migrants_per_100k :: "frame \<Rightarrow> error + frame" where
  "migrants_per_100k country =
     bind_res (getnum country ''Migrants-net'') (\<lambda>mig.
     bind_res (getnum country ''Population'') (\<lambda>pop.
     Inr (setnum country ''Migrants_per_100k''
            (map (\<lambda>(m, p). fmul (fdiv m p) (Fin 100000)) (zip mig pop)))))"

fun cell_gt :: "cell \<Rightarrow> fval \<Rightarrow> error + bool" where
  "cell_gt (Num v) x = Inr (fgt v x)"
| "cell_gt (Str s) x = Inl TypeError"

fun cell_lt :: "cell \<Rightarrow> fval \<Rightarrow> error + bool" where
  "cell_lt (Num v) x = Inr (flt v x)"
| "cell_lt (Str s) x = Inl TypeError"

text \<open>Python's \<open>a and b\<close>: \<open>b\<close> is evaluated only when \<open>a\<close> is true.\<close>

definition and_then :: "error + bool \<Rightarrow> error + bool \<Rightarrow> error + bool" where
  "and_then a b = bind_res a (\<lambda>x. if x then b else Inr False)"

definition classify_aging :: "string list \<Rightarrow> row \<Rightarrow> error + string" where
  "classify_aging cols r =
     bind_res (and_then
                (bind_res (row_getitem cols r ''Fert-Rate'') (\<lambda>f. cell_gt f (Fin (21 / 10))))
                (bind_res (row_getitem cols r ''Median-Age'') (\<lambda>a. cell_lt a (Fin 30))))
       (\<lambda>growing. if growing then Inr ''Growing''
          else bind_res (and_then
                (bind_res (row_getitem cols r ''Fert-Rate'') (\<lambda>f. cell_lt f (Fin (18 / 10))))
                (bind_res (row_getitem cols r ''Median-Age'') (\<lambda>a. cell_gt a (Fin 40))))
            (\<lambda>aging. if aging then Inr ''Aging'' else Inr ''Stable''))"

text \<open>\<open>country.apply(classify_aging, axis=1)\<close>: the function on every row, in order.\<close>

definition demographic_status :: "frame \<Rightarrow> error + frame" where
  "demographic_status country =
     bind_res (all_res (map (classify_aging (columns country)) (rows country))) (\<lambda>st.
     Inr (setitem country ''Demographic_Status'' (map Str st)))"

definition process_country_data :: "frame \<Rightarrow> error + frame" where
  "process_country_data country =
     bind_res (migrants_per_100k (net_change_perc country)) demographic_status"

section \<open>Undernourishment enricher\<close>

text \<open>
  \<open>process_undernourishment_data\<close> returns the enriched frame and the two totals. The
  source reads \<open>Undernourished-People\<close> and \<open>Population\<close> again at every use; no
  assignment in between writes either column, so the model reads each once.
\<close>

definition process_undernourishment_data :: "frame \<Rightarrow> error + (frame \<times> fval \<times> fval)" where
  "process_undernourishment_data und =
     bind_res (getnum und ''Undernourished-People'') (\<lambda>people.
     bind_res (getnum und ''Population'') (\<lambda>pop.
     let und1 = setnum und ''Undernourished_per_1000''
                  (map (\<lambda>(u, p). fmul (fdiv u p) (Fin 1000)) (zip people pop));
         und2 = setnum und1 ''Undernourished_Million''
                  (map (\<lambda>u. fdiv u (Fin 1000000)) people);
         total_undernourished = series_sum people;
         burden = map (\<lambda>u. fmul (fdiv u total_undernourished) (Fin 100)) people;
         und3 = setnum und2 ''Global_Burden_Share'' burden;
         total_pop = series_sum pop;
         share = map (\<lambda>p. fmul (fdiv p total_pop) (Fin 100)) pop;
         und4 = setnum und3 ''Population_Share'' share;
         und5 = setnum und4 ''Burden_vs_Pop_Diff''
                  (map (\<lambda>(b, s). fsub b s) (zip burden share))
     in Inr (und5, total_undernourished, total_pop)))"

section \<open>Food price filter\<close>

text \<open>
  \<open>astype(int)\<close> casts a column to int64, element by element. A finite float is
  truncated towards zero; NaN and the infinities raise (the library's error is a
  \<open>ValueError\<close>). A text is read by Python's \<open>int\<close>: a text that is not an integer
  literal raises \<open>ValueError\<close>, and an integer outside int64 raises \<open>OverflowError\<close>.
  A float whose truncation is outside int64 does not raise: the result is what the
  platform's conversion gives (a float cell is cast as the cells of a float64 column are). The integer parser and that conversion belong to Python and
  the array library, not to this repository: they are the two fields of \<open>castlib\<close>, and
  every theorem holds for each choice of them.
\<close>

record castlib =
  parse_int :: "string \<Rightarrow> int option"
  cast_overflow :: "real \<Rightarrow> int"

definition int64_range :: "int \<Rightarrow> bool" where
  "int64_range n = (- (2 ^ 63) \<le> n \<and> n < 2 ^ 63)"

definition trunc_zero :: "real \<Rightarrow> int" where
  "trunc_zero x = (if 0 \<le> x then \<lfloor>x\<rfloor> else \<lceil>x\<rceil>)"

fun astype_int :: "castlib \<Rightarrow> cell \<Rightarrow> error + int" where
  "astype_int C (Num (Fin x)) =
     Inr (if int64_range (trunc_zero x) then trunc_zero x else cast_overflow C x)"
| "astype_int C (Num v) = Inl ValueError"
| "astype_int C (Str s) =
     (case parse_int C s of
        None \<Rightarrow> Inl ValueError
      | Some n \<Rightarrow> if int64_range n then Inr n else Inl OverflowError)"

definition astype_int_col :: "castlib \<Rightarrow> frame \<Rightarrow> string \<Rightarrow> error + frame" where
  "astype_int_col C df name =
     bind_res (getitem df name) (\<lambda>cs.
     bind_res (all_res (map (astype_int C) cs)) (\<lambda>ns.
     Inr (setnum df name (map (\<lambda>n. Fin (of_int n)) ns))))"

text \<open>
  A sample of the two for evaluating the model on concrete tables: an optional minus sign
  and decimal digits, and the smallest int64 for a float out of range.
\<close>

definition parse_integer :: "string \<Rightarrow> int option" where
  "parse_integer s =
     (case s of
        [] \<Rightarrow> None
      | c # cs \<Rightarrow>
          if c = CHR ''-''
          then (if cs = [] then None else map_option (\<lambda>n. - int n) (parse_digits 0 cs))
          else map_option int (parse_digits 0 s))"

definition sample_castlib :: castlib where
  "sample_castlib = \<lparr>parse_int = parse_integer, cast_overflow = (\<lambda>x. - (2 ^ 63))\<rparr>"

definition price_ok :: "fval \<Rightarrow> bool" where
  "price_ok p = (\<not> isna p \<and> fgt p (Fin 0))"

definition process_food_data :: "castlib \<Rightarrow> frame \<Rightarrow> error + frame" where
  "process_food_data C food =
     bind_res (getnum food ''price-paid'') (\<lambda>price.
     let food1 = food\<lparr>rows := map fst (filter (\<lambda>(r, p). price_ok p) (zip (rows food) price))\<rparr>
     in bind_res (astype_int_col C food1 ''year-recorded'') (\<lambda>food2.
        astype_int_col C food2 ''month-recorded''))"

section \<open>Grouping\<close>

text \<open>
  \<open>groupby\<close> drops a row whose key is missing, sorts the groups by key and keeps the
  rows of a group in frame order. A key column holds texts (a missing key is NaN); texts
  are compared as Python compares them, character by character. A year is a number;
  \<open>fkey\<close> places the infinities below and above the finite years.
\<close>

fun group_key :: "cell \<Rightarrow> error + string option" where
  "group_key (Str s) = Inr (Some s)"
| "group_key (Num NaN) = Inr None"
| "group_key (Num v) = Inl TypeError"

fun fkey :: "fval \<Rightarrow> int \<times> real" where
  "fkey NInf = (- 1, 0)"
| "fkey (Fin x) = (0, x)"
| "fkey PInf = (1, 0)"
| "fkey NaN = (2, 0)"

text \<open>
  The rows of a frame as (key, year, value) triples, for
  \<open>df.groupby([kcol, ycol])[vcol]\<close>: rows with a missing key or year are dropped.
\<close>

definition keyed_values ::
  "frame \<Rightarrow> string \<Rightarrow> string \<Rightarrow> string \<Rightarrow> error + (string \<times> fval \<times> fval) list" where
  "keyed_values df kcol ycol vcol =
     bind_res (getitem df kcol) (\<lambda>ks.
     bind_res (all_res (map group_key ks)) (\<lambda>keys.
     bind_res (getnum df ycol) (\<lambda>ys.
     bind_res (getnum df vcol) (\<lambda>vs.
     Inr (concat (map (\<lambda>(k, y, v). case k of None \<Rightarrow> []
                                  | Some s \<Rightarrow> if isna y then [] else [(s, y, v)])
                      (zip keys (zip ys vs))))))))"

text \<open>\<open>groupby([k, y])[v].mean().reset_index()\<close>: one row for each (key, year), sorted.\<close>

definition groupby2_mean :: "(string \<times> fval \<times> fval) list \<Rightarrow> (string \<times> fval \<times> fval) list" where
  "groupby2_mean recs =
     map (\<lambda>(k, y). (k, y, series_mean (map (\<lambda>(k', y', v). v)
                                         (filter (\<lambda>(k', y', v). k' = k \<and> y' = y) recs))))
         (sort_key (\<lambda>(k, y). (k, fkey y)) (remdups (map (\<lambda>(k, y, v). (k, y)) recs)))"

text \<open>\<open>groupby(k)[v].agg(f)\<close>: \<open>f\<close> on the values of each key, the keys sorted.\<close>

definition groupby_agg :: "(fval list \<Rightarrow> fval) \<Rightarrow> (string \<times> fval) list \<Rightarrow> (string \<times> fval) list" where
  "groupby_agg f kvs =
     map (\<lambda>k. (k, f (map snd (filter (\<lambda>(k', v). k' = k) kvs)))) (sort (remdups (map fst kvs)))"

text \<open>
  \<open>groupby(k)[v].pct_change()\<close>: each value against the previous value of the same key,
  \<open>cur / prev - 1\<close>, and NaN for the first value of a key. The result is in row order.
\<close>

fun grp_pct_change :: "(string \<rightharpoonup> fval) \<Rightarrow> (string \<times> fval) list \<Rightarrow> fval list" where
  "grp_pct_change prev [] = []"
| "grp_pct_change prev ((k, v) # rest) =
     (case prev k of None \<Rightarrow> NaN | Some p \<Rightarrow> fsub (fdiv v p) (Fin 1))
       # grp_pct_change (prev(k \<mapsto> v)) rest"

section \<open>Cross-table joiner\<close>

text \<open>
  \<open>.str.strip().str.lower()\<close> on a key column. A text is the byte string of its
  UTF-8 encoding, which keeps equality and the order of texts. Python's \<open>str.strip\<close>
  and \<open>str.lower\<close> follow the Unicode tables (they strip U+00A0 and lower an accented
  capital): they belong to Python, not to this repository, and are the two fields of
  \<open>strlib\<close>; every theorem holds for each choice of them. An element that is not a text
  becomes NaN.
\<close>

record strlib =
  str_strip :: "string \<Rightarrow> string"
  str_lower :: "string \<Rightarrow> string"

fun normalise_name :: "strlib \<Rightarrow> cell \<Rightarrow> cell" where
  "normalise_name S (Str s) = Str (str_lower S (str_strip S s))"
| "normalise_name S (Num v) = Num NaN"

definition normalise_col :: "strlib \<Rightarrow> frame \<Rightarrow> string \<Rightarrow> error + frame" where
  "normalise_col S df name =
     bind_res (getitem df name) (\<lambda>cs. Inr (setitem df name (map (normalise_name S) cs)))"

text \<open>
  A sample of the two for evaluating the model on concrete tables, right on ASCII texts
  only: the ASCII white space is stripped and the letters A to Z are lowered.
\<close>

definition is_space :: "char \<Rightarrow> bool" where
  "is_space c = (c \<in> set [CHR '' '', CHR 0x09, CHR 0x0A, CHR 0x0B, CHR 0x0C, CHR 0x0D,
                           CHR 0x1C, CHR 0x1D, CHR 0x1E, CHR 0x1F])"

definition ascii_strip :: "string \<Rightarrow> string" where
  "ascii_strip s = rev (dropWhile is_space (rev (dropWhile is_space s)))"

definition lower_char :: "char \<Rightarrow> char" where
  "lower_char c =
     (case map_of (zip ''ABCDEFGHIJKLMNOPQRSTUVWXYZ'' ''abcdefghijklmnopqrstuvwxyz'') c of
        Some d \<Rightarrow> d | None \<Rightarrow> c)"

definition ascii_lower :: "string \<Rightarrow> string" where
  "ascii_lower s = map lower_char s"

definition sample_strlib :: strlib where
  "sample_strlib = \<lparr>str_strip = ascii_strip, str_lower = ascii_lower\<rparr>"

text \<open>
  \<open>food_agg\<close>, \<open>food_inflation\<close> and \<open>food_trends\<close>: the mean price of each
  (country, year), its change in percent against the country's previous year, and the
  mean of these changes for each country. The food frame is the output of
  \<open>process_food_data\<close>: its prices are present, so every yearly mean is present.
\<close>

definition food_trends :: "strlib \<Rightarrow> frame \<Rightarrow> error + (string \<times> fval) list" where
  "food_trends S food =
     bind_res (normalise_col S food ''country-name'') (\<lambda>food_clean.
     bind_res (keyed_values food_clean ''country-name'' ''year-recorded'' ''price-paid'')
       (\<lambda>recs.
     let food_agg = groupby2_mean recs;
         food_inflation = map (\<lambda>v. fmul v (Fin 100))
                            (grp_pct_change Map.empty (map (\<lambda>(k, y, m). (k, m)) food_agg))
     in Inr (groupby_agg series_mean (zip (map fst food_agg) food_inflation))))"

text \<open>
  \<open>pd.merge(country_clean, food_trends, how='inner', left_on='Country',
  right_on='country-name')\<close>: for each row of the left frame, in order, one row for each
  row of the right frame with the same key. (When the left frame has a column
  \<open>country-name\<close> of its own the library renames the two; the rows and the other
  columns are the same.)
\<close>

definition merge_inner :: "frame \<Rightarrow> (string \<times> fval) list \<Rightarrow> frame" where
  "merge_inner left trends =
     \<lparr>columns = add_column (add_column (columns left) ''country-name'') ''avg_food_inflation'',
      rows = concat (map (\<lambda>l. map (\<lambda>(c, a). l(''country-name'' := Str c,
                                               ''avg_food_inflation'' := Num a))
                                   (filter (\<lambda>(c, a). l ''Country'' = Str c) trends))
                         (rows left))\<rparr>"

definition risk_score :: "fval \<Rightarrow> fval \<Rightarrow> fval \<Rightarrow> fval" where
  "risk_score fert dens infl =
     fadd (fadd (fmul fert (Fin (3 / 10))) (fmul (fdiv dens (Fin 1000)) (Fin (2 / 10))))
          (fmul (fabs infl) (Fin (5 / 10)))"

text \<open>
  \<open>merged_df\<close> with its \<open>poverty_risk_score\<close>. A Country frame that already has a
  column \<open>avg_food_inflation\<close> gets both renamed by the merge, and the read of
  \<open>merged_df['avg_food_inflation']\<close> raises \<open>KeyError\<close>.
\<close>

definition merged_df :: "strlib \<Rightarrow> frame \<Rightarrow> frame \<Rightarrow> error + frame" where
  "merged_df S country food =
     bind_res (normalise_col S country ''Country'') (\<lambda>country_clean.
     bind_res (food_trends S food) (\<lambda>trends.
     if ''avg_food_inflation'' \<in> set (columns country_clean) then Inl KeyError
     else
       let m = merge_inner country_clean trends in
       bind_res (getnum m ''Fert-Rate'') (\<lambda>fert.
       bind_res (getnum m ''Density'') (\<lambda>dens.
       bind_res (getnum m ''avg_food_inflation'') (\<lambda>infl.
       Inr (setnum m ''poverty_risk_score''
              (map (\<lambda>(f, d, a). risk_score f d a) (zip fert (zip dens infl)))))))))"

section \<open>Aggregation utilities\<close>

text \<open>
  The price change of a commodity, first year to last year:
  \<open>lambda x: x.iloc[-1] - x.iloc[0] if len(x) > 1 else 0\<close> on the commodity's yearly
  mean prices, and the price change of the country deep dive,
  \<open>(x.iloc[-1] / x.iloc[0] - 1) * 100\<close>, where \<open>iloc\<close> raises \<open>IndexError\<close> on an
  empty series.
\<close>

definition price_change_agg :: "fval list \<Rightarrow> fval" where
  "price_change_agg x = (if length x > 1 then fsub (last x) (hd x) else Fin 0)"

definition price_change :: "frame \<Rightarrow> error + (string \<times> fval) list" where
  "price_change food =
     bind_res (keyed_values food ''comm-purchased'' ''year-recorded'' ''price-paid'')
       (\<lambda>recs.
     let price_by_year = groupby2_mean recs
     in Inr (groupby_agg price_change_agg (map (\<lambda>(k, y, m). (k, m)) price_by_year)))"

definition deep_dive_price_change :: "fval list \<Rightarrow> error + fval" where
  "deep_dive_price_change x =
     (if x = [] then Inl IndexError
      else Inr (fmul (fsub (fdiv (last x) (hd x)) (Fin 1)) (Fin 100)))"

section \<open>Row-wise reading of the enrichers\<close>

text \<open>
  The value of a numeric cell; the enrichers only read it from columns that \<open>getnum\<close>
  has accepted, where every cell is a number.
\<close>

fun numval :: "cell \<Rightarrow> fval" where
  "numval (Num v) = v"
| "numval (Str s) = NaN"

text \<open>
  What \<open>process_region_data\<close> does to one row. \<open>process_region_data_rows\<close> below
  proves that the column program is this function on every row.
\<close>

definition region_row :: "numlib \<Rightarrow> row \<Rightarrow> row" where
  "region_row L r =
     (let perc = clean_percent_val L (r ''Urban-Pop-Perc'');
          urban = fdiv (fmul (numval (r ''Population'')) perc) (Fin 100)
      in r(''Urban-Pop-Perc'' := Num perc,
           ''Yearly-Change'' := Num (clean_percent_val L (r ''Yearly-Change'')),
           ''World-Share'' := Num (clean_percent_val L (r ''World-Share'')),
           ''Urban_Pop'' := Num urban,
           ''Rural_Pop'' := Num (fsub (numval (r ''Population'')) urban)))"

text \<open>
  The two rules of the demographic classification as the specification words them, on the
  cells of a row: a rule holds only for numbers, and the comparisons are strict.
\<close>

definition rule_growing :: "row \<Rightarrow> bool" where
  "rule_growing r =
     (case (r ''Fert-Rate'', r ''Median-Age'') of
        (Num f, Num a) \<Rightarrow> fgt f (Fin (21 / 10)) \<and> flt a (Fin 30)
      | _ \<Rightarrow> False)"

definition rule_aging :: "row \<Rightarrow> bool" where
  "rule_aging r =
     (case (r ''Fert-Rate'', r ''Median-Age'') of
        (Num f, Num a) \<Rightarrow> flt f (Fin (18 / 10)) \<and> fgt a (Fin 40)
      | _ \<Rightarrow> False)"

text \<open>
  What the first two steps of \<open>process_country_data\<close> do to one row, and the columns
  that arithmetic can read.
\<close>

definition net_change_row :: "bool \<Rightarrow> row \<Rightarrow> row" where
  "net_change_row has_yearly r =
     r(''Net_Change_perc'' := (if has_yearly then mul_100 (r ''Yearly-Change'') else Num (Fin 0)))"

definition migrants_row :: "row \<Rightarrow> row" where
  "migrants_row r =
     r(''Migrants_per_100k'' :=
         Num (fmul (fdiv (numval (r ''Migrants-net'')) (numval (r ''Population''))) (Fin 100000)))"

definition numeric_col :: "frame \<Rightarrow> string \<Rightarrow> bool" where
  "numeric_col df name =
     (name \<in> set (columns df)
      \<and> list_all (\<lambda>r. case r name of Num v \<Rightarrow> True | Str s \<Rightarrow> False) (rows df))"

text \<open>
  The finite part of a value, for summing, and the two sums of shares of the enriched
  undernourishment table: \<open>Global_Burden_Share.sum()\<close> and \<open>Population_Share.sum()\<close>
  (sums skip missing values).
\<close>

fun finpart :: "fval \<Rightarrow> real" where
  "finpart (Fin x) = x"
| "finpart v = 0"

definition share_sums :: "frame \<Rightarrow> error + (fval \<times> fval)" where
  "share_sums und =
     bind_res (process_undernourishment_data und) (\<lambda>(out, total_u, total_p).
     bind_res (getnum out ''Global_Burden_Share'') (\<lambda>gs.
     bind_res (getnum out ''Population_Share'') (\<lambda>ps.
     Inr (series_sum gs, series_sum ps))))"

text \<open>
  What the score assignment does to one row of the merged table, the normalised join keys
  of a table, the number of rows of the join and the number of countries with food data.
\<close>

definition score_row :: "row \<Rightarrow> row" where
  "score_row r =
     r(''poverty_risk_score'' :=
         Num (risk_score (numval (r ''Fert-Rate'')) (numval (r ''Density''))
                (numval (r ''avg_food_inflation''))))"

definition normalised_names :: "strlib \<Rightarrow> frame \<Rightarrow> string \<Rightarrow> cell list" where
  "normalised_names S df name = map (\<lambda>r. normalise_name S (r name)) (rows df)"

definition merged_count :: "strlib \<Rightarrow> frame \<Rightarrow> frame \<Rightarrow> error + nat" where
  "merged_count S country food =
     bind_res (merged_df S country food) (\<lambda>m. Inr (length (rows m)))"

definition food_country_count :: "strlib \<Rightarrow> frame \<Rightarrow> error + nat" where
  "food_country_count S food = bind_res (food_trends S food) (\<lambda>t. Inr (length t))"

text \<open>
  The years recorded for a key, earliest first, and the mean value of a key in a year:
  the first and the last yearly point of a group are the means of the first and of the
  last of these years.
\<close>

definition group_years :: "(string \<times> fval \<times> fval) list \<Rightarrow> string \<Rightarrow> fval list" where
  "group_years recs k =
     sort_key fkey (remdups (map (\<lambda>(k', y, v). y) (filter (\<lambda>(k', y, v). k' = k) recs)))"

definition year_mean :: "(string \<times> fval \<times> fval) list \<Rightarrow> string \<Rightarrow> fval \<Rightarrow> fval" where
  "year_mean recs k y =
     series_mean (map (\<lambda>(k', y', v). v) (filter (\<lambda>(k', y', v). k' = k \<and> y' = y) recs))"

section \<open>Sample tables\<close>

text \<open>
  Small concrete tables on which the model is evaluated. \<open>mk_row\<close> builds a row from
  its cells (any other name reads as NaN) and \<open>column_after\<close> reads one column of a
  stage's result.
\<close>

definition mk_row :: "(string \<times> cell) list \<Rightarrow> row" where
  "mk_row kvs = (\<lambda>n. case map_of kvs n of Some c \<Rightarrow> c | None \<Rightarrow> Num NaN)"

definition column_after :: "error + frame \<Rightarrow> string \<Rightarrow> error + cell list" where
  "column_after m name = bind_res m (\<lambda>df. getitem df name)"

definition region_cols :: "string list" where
  "region_cols = [''Region'', ''Population'', ''Urban-Pop-Perc'', ''Yearly-Change'', ''World-Share'']"

definition region_asia :: frame where
  "region_asia =
     \<lparr>columns = region_cols,
      rows = [mk_row [(''Region'', Str ''Asia''), (''Population'', Num (Fin 1000)),
                      (''Urban-Pop-Perc'', Str ''60%''), (''Yearly-Change'', Str ''0.9%''),
                      (''World-Share'', Str ''59.5%'')],
              mk_row [(''Region'', Str ''Oceania''), (''Population'', Num (Fin 40)),
                      (''Urban-Pop-Perc'', Str ''n/a''), (''Yearly-Change'', Str ''1.2%''),
                      (''World-Share'', Str ''0.5%'')]]\<rparr>"

definition region_missing_population :: frame where
  "region_missing_population =
     \<lparr>columns = region_cols,
      rows = [mk_row [(''Region'', Str ''Asia''), (''Population'', Num NaN),
                      (''Urban-Pop-Perc'', Str ''60%''), (''Yearly-Change'', Str ''0.9%''),
                      (''World-Share'', Str ''59.5%'')]]\<rparr>"

definition country_cols :: "string list" where
  "country_cols = [''Country'', ''Population'', ''Fert-Rate'', ''Median-Age'', ''Migrants-net'',
                   ''Density'', ''Yearly-Change'']"

definition country_row :: "string \<Rightarrow> fval \<Rightarrow> fval \<Rightarrow> fval \<Rightarrow> fval \<Rightarrow> fval \<Rightarrow> fval \<Rightarrow> row" where
  "country_row name pop fert age mig dens chg =
     mk_row [(''Country'', Str name), (''Population'', Num pop), (''Fert-Rate'', Num fert),
             (''Median-Age'', Num age), (''Migrants-net'', Num mig), (''Density'', Num dens),
             (''Yearly-Change'', Num chg)]"

definition country_sample :: frame where
  "country_sample =
     \<lparr>columns = country_cols,
      rows = [country_row ''India'' (Fin 1000) (Fin (5 / 2)) (Fin 25) (Fin (- 5)) (Fin 400) (Fin (3 / 200)),
              country_row ''Japan'' (Fin 500) (Fin (3 / 2)) (Fin 45) (Fin 1) (Fin 300) NaN,
              country_row ''Utopia'' (Fin 0) (Fin 2) (Fin 35) (Fin 7) (Fin 10) (Fin (1 / 500)),
              country_row ''Nowhere'' (Fin 0) (Fin (21 / 10)) (Fin 25) (Fin 0) (Fin 0) (Fin 0),
              country_row ''Atlantis'' (Fin 0) NaN (Fin 25) (Fin (- 3)) (Fin 1) (Fin 0)]\<rparr>"

definition und_cols :: "string list" where
  "und_cols = [''Country'', ''Population'', ''Undernourished-People'']"

definition und_row :: "string \<Rightarrow> fval \<Rightarrow> fval \<Rightarrow> row" where
  "und_row name pop people =
     mk_row [(''Country'', Str name), (''Population'', Num pop),
             (''Undernourished-People'', Num people)]"

definition und_sample :: frame where
  "und_sample = \<lparr>columns = und_cols,
                  rows = [und_row ''A'' (Fin 300) (Fin 50), und_row ''B'' (Fin 100) (Fin 50),
                          und_row ''C'' (Fin 600) NaN]\<rparr>"

definition und_none_undernourished :: frame where
  "und_none_undernourished = \<lparr>columns = und_cols, rows = [und_row ''A'' (Fin 100) (Fin 0)]\<rparr>"

definition food_cols :: "string list" where
  "food_cols = [''country-name'', ''comm-purchased'', ''year-recorded'', ''month-recorded'',
                ''price-paid'']"

definition food_row :: "string \<Rightarrow> string \<Rightarrow> fval \<Rightarrow> fval \<Rightarrow> fval \<Rightarrow> row" where
  "food_row country comm year month price =
     mk_row [(''country-name'', Str country), (''comm-purchased'', Str comm),
             (''year-recorded'', Num year), (''month-recorded'', Num month),
             (''price-paid'', Num price)]"

definition food_raw :: frame where
  "food_raw =
     \<lparr>columns = food_cols,
      rows = [food_row ''India'' ''Rice'' (Fin 2019) (Fin 1) (Fin 10),
              food_row ''India'' ''Rice'' (Fin 2019) (Fin 2) NaN,
              food_row ''India'' ''Rice'' (Fin 2020) (Fin 1) (Fin 12),
              food_row ''Kenya'' ''Maize'' (Fin 2020) (Fin 5) (Fin 0),
              food_row ''Kenya'' ''Maize'' (Fin 2020) (Fin 6) (Fin (- 3)),
              food_row '' india'' ''Wheat'' (Fin 2021) (Fin 7) (Fin (9 / 2))]\<rparr>"

definition food_sample :: frame where
  "food_sample =
     \<lparr>columns = food_cols,
      rows = [food_row ''India'' ''Rice'' (Fin 2020) (Fin 1) (Fin 15),
              food_row ''India'' ''Rice'' (Fin 2019) (Fin 1) (Fin 10),
              food_row '' india'' ''Wheat'' (Fin 2019) (Fin 3) (Fin 14),
              food_row ''India'' ''Rice'' (Fin 2021) (Fin 1) (Fin 12)]\<rparr>"

definition country_duplicate :: frame where
  "country_duplicate =
     \<lparr>columns = country_cols,
      rows = [country_row ''India'' (Fin 1000) (Fin (5 / 2)) (Fin 25) (Fin (- 5)) (Fin 400) (Fin (3 / 200)),
              country_row '' india '' (Fin 1000) (Fin 2) (Fin 25) (Fin (- 5)) (Fin 1000) (Fin (3 / 200))]\<rparr>"

definition food_sample_records :: "(string \<times> fval \<times> fval) list" where
  "food_sample_records =
     [(''Rice'', Fin 2020, Fin 15), (''Rice'', Fin 2019, Fin 10),
      (''Wheat'', Fin 2019, Fin 14), (''Rice'', Fin 2021, Fin 12)]"

section \<open>Results, frames and columns\<close>

lemma bind_res_Inr: "bind_res m f = Inr y \<longleftrightarrow> (\<exists>x. m = Inr x \<and> f x = Inr y)"
  by (cases m) (simp_all add: bind_res_def)

lemma all_res_map_Inr: "all_res (map Inr xs) = Inr xs"
  by (induction xs) auto

lemma all_res_Inr_D: "all_res ms = Inr xs \<Longrightarrow> ms = map Inr xs"
proof (induction ms arbitrary: xs)
  case Nil
  then show ?case by auto
next
  case (Cons m ms)
  then show ?case by (auto split: sum.splits)
qed

lemma all_res_Inr: "all_res ms = Inr xs \<longleftrightarrow> ms = map Inr xs"
  using all_res_Inr_D all_res_map_Inr by blast

lemma as_num_Inr: "as_num c = Inr v \<longleftrightarrow> c = Num v"
  by (cases c) auto

lemma map_as_num_Inr: "map as_num cs = map Inr vs \<longleftrightarrow> cs = map Num vs"
proof (induction cs arbitrary: vs)
  case Nil
  then show ?case by auto
next
  case (Cons c cs)
  then show ?case by (cases vs) (auto simp: as_num_Inr)
qed

lemma getnum_Inr:
  "getnum df name = Inr vs \<longleftrightarrow>
     name \<in> set (columns df) \<and> map (\<lambda>r. r name) (rows df) = map Num vs"
  by (auto simp: getnum_def getitem_def bind_res_Inr all_res_Inr map_as_num_Inr)

lemma getnum_numval:
  assumes "getnum df name = Inr vs"
  shows "vs = map (\<lambda>r. numval (r name)) (rows df)"
proof -
  have "map (\<lambda>r. r name) (rows df) = map Num vs"
    using assms by (simp add: getnum_Inr)
  then have "map numval (map (\<lambda>r. r name) (rows df)) = map numval (map Num vs)"
    by simp
  then show ?thesis by (simp add: o_def)
qed

lemma getnum_cells:
  assumes "getnum df name = Inr vs" and "r \<in> set (rows df)"
  shows "r name = Num (numval (r name))"
proof -
  have "map (\<lambda>r. r name) (rows df) = map Num vs"
    using assms(1) by (simp add: getnum_Inr)
  then have "r name \<in> set (map Num vs)"
    using assms(2) by (metis image_eqI list.set_map)
  then show ?thesis by auto
qed

lemma zip_map_same: "zip (map f xs) (map g xs) = map (\<lambda>x. (f x, g x)) xs"
  by (induction xs) auto

lemma zip_self_map: "zip xs (map f xs) = map (\<lambda>x. (x, f x)) xs"
  by (induction xs) auto

lemma set_add_column: "set (add_column cols name) = insert name (set cols)"
  by (auto simp: add_column_def)

lemma rows_setitem_map:
  "rows (setitem df name (map F (rows df))) = map (\<lambda>r. r(name := F r)) (rows df)"
  by (simp add: setitem_def zip_self_map o_def)

lemma rows_setnum_map:
  "rows (setnum df name (map F (rows df))) = map (\<lambda>r. r(name := Num (F r))) (rows df)"
  by (simp add: setnum_def rows_setitem_map[of df name "\<lambda>r. Num (F r)", symmetric] o_def)

lemma columns_setnum: "columns (setnum df name vs) = add_column (columns df) name"
  by (simp add: setnum_def setitem_def)

lemma columns_setitem: "columns (setitem df name vs) = add_column (columns df) name"
  by (simp add: setitem_def)

lemma clean_in_place_Inr:
  assumes "clean_in_place L df name = Inr df'"
  shows "rows df' = map (\<lambda>r. r(name := Num (clean_percent_val L (r name)))) (rows df)"
    and "set (columns df') = set (columns df)"
    and "name \<in> set (columns df)"
proof -
  have in_cols: "name \<in> set (columns df)"
    using assms by (auto simp: clean_in_place_def bind_res_Inr getitem_def split: if_splits)
  then have df': "df' = setnum df name (map (\<lambda>r. clean_percent_val L (r name)) (rows df))"
    using assms by (auto simp: clean_in_place_def bind_res_Inr getitem_def clean_percent_col_def o_def)
  show "rows df' = map (\<lambda>r. r(name := Num (clean_percent_val L (r name)))) (rows df)"
    unfolding df' by (rule rows_setnum_map)
  show "set (columns df') = set (columns df)"
    unfolding df' using in_cols by (auto simp: columns_setnum set_add_column)
  show "name \<in> set (columns df)" by (rule in_cols)
qed


lemma column_after_Inr_D: "column_after m name = Inr cs \<Longrightarrow> \<exists>df. m = Inr df"
  by (cases m) (simp_all add: column_after_def bind_res_def)

lemma bind_res_InrE:
  assumes "bind_res m f = Inr y"
  obtains x where "m = Inr x" and "f x = Inr y"
  using assms by (auto simp: bind_res_Inr)

section \<open>Region enricher: properties\<close>

lemma process_region_data_steps:
  assumes "process_region_data L region = Inr out"
  obtains region1 region2 region3 pop perc pop' urban where
    "clean_in_place L region ''Urban-Pop-Perc'' = Inr region1" and
    "clean_in_place L region1 ''Yearly-Change'' = Inr region2" and
    "clean_in_place L region2 ''World-Share'' = Inr region3" and
    "getnum region3 ''Population'' = Inr pop" and
    "getnum region3 ''Urban-Pop-Perc'' = Inr perc" and
    "getnum (setnum region3 ''Urban_Pop''
                  (map (\<lambda>(p, u). fdiv (fmul p u) (Fin 100)) (zip pop perc)))
           ''Population'' = Inr pop'" and
    "getnum (setnum region3 ''Urban_Pop''
                  (map (\<lambda>(p, u). fdiv (fmul p u) (Fin 100)) (zip pop perc)))
           ''Urban_Pop'' = Inr urban" and
    "out = setnum (setnum region3 ''Urban_Pop''
                  (map (\<lambda>(p, u). fdiv (fmul p u) (Fin 100)) (zip pop perc)))
              ''Rural_Pop'' (map (\<lambda>(p, u). fsub p u) (zip pop' urban))"
  using assms unfolding process_region_data_def Let_def
  by (elim bind_res_InrE Inr_inject) blast


lemma process_region_data_rows:
  assumes "process_region_data L region = Inr out"
  shows "rows out = map (region_row L) (rows region)"
    and "\<forall>r \<in> set (rows region). r ''Population'' = Num (numval (r ''Population''))"
proof -
  from assms obtain region1 region2 region3 pop perc pop' urban where
    c1: "clean_in_place L region ''Urban-Pop-Perc'' = Inr region1" and
    c2: "clean_in_place L region1 ''Yearly-Change'' = Inr region2" and
    c3: "clean_in_place L region2 ''World-Share'' = Inr region3" and
    g1: "getnum region3 ''Population'' = Inr pop" and
    g2: "getnum region3 ''Urban-Pop-Perc'' = Inr perc" and
    g3: "getnum (setnum region3 ''Urban_Pop''
                  (map (\<lambda>(p, u). fdiv (fmul p u) (Fin 100)) (zip pop perc)))
           ''Population'' = Inr pop'" and
    g4: "getnum (setnum region3 ''Urban_Pop''
                  (map (\<lambda>(p, u). fdiv (fmul p u) (Fin 100)) (zip pop perc)))
           ''Urban_Pop'' = Inr urban" and
    out: "out = setnum (setnum region3 ''Urban_Pop''
                  (map (\<lambda>(p, u). fdiv (fmul p u) (Fin 100)) (zip pop perc)))
              ''Rural_Pop'' (map (\<lambda>(p, u). fsub p u) (zip pop' urban))"
    by (rule process_region_data_steps)
  define region4 where "region4 = setnum region3 ''Urban_Pop''
       (map (\<lambda>r. fdiv (fmul (numval (r ''Population'')) (numval (r ''Urban-Pop-Perc''))) (Fin 100))
            (rows region3))"
  have r4: "setnum region3 ''Urban_Pop''
              (map (\<lambda>(p, u). fdiv (fmul p u) (Fin 100)) (zip pop perc)) = region4"
    unfolding region4_def getnum_numval[OF g1] getnum_numval[OF g2]
    by (simp add: zip_map_same o_def)
  have out': "out = setnum region4 ''Rural_Pop''
      (map (\<lambda>r. fsub (numval (r ''Population'')) (numval (r ''Urban_Pop''))) (rows region4))"
    unfolding out r4 getnum_numval[OF g3[unfolded r4]] getnum_numval[OF g4[unfolded r4]]
    by (simp add: zip_map_same o_def)
  have rows3: "rows region3 = map (\<lambda>r. r(''Urban-Pop-Perc'' := Num (clean_percent_val L (r ''Urban-Pop-Perc'')),
           ''Yearly-Change'' := Num (clean_percent_val L (r ''Yearly-Change'')),
           ''World-Share'' := Num (clean_percent_val L (r ''World-Share'')))) (rows region)"
    by (simp add: clean_in_place_Inr(1)[OF c3] clean_in_place_Inr(1)[OF c2]
        clean_in_place_Inr(1)[OF c1] o_def)
  have rows4: "rows region4 = map (\<lambda>r. r(''Urban_Pop'' := Num (fdiv (fmul (numval (r ''Population'')) (numval (r ''Urban-Pop-Perc''))) (Fin 100)))) (rows region3)"
    unfolding region4_def by (rule rows_setnum_map)
  have rowso: "rows out = map (\<lambda>r. r(''Rural_Pop'' := Num (fsub (numval (r ''Population'')) (numval (r ''Urban_Pop''))))) (rows region4)"
    unfolding out' by (rule rows_setnum_map)
  show "rows out = map (region_row L) (rows region)"
    unfolding rowso rows4 rows3
    by (simp add: o_def region_row_def Let_def)
  show "\<forall>r \<in> set (rows region). r ''Population'' = Num (numval (r ''Population''))"
  proof
    fix r assume "r \<in> set (rows region)"
    then have "r(''Urban-Pop-Perc'' := Num (clean_percent_val L (r ''Urban-Pop-Perc'')),
           ''Yearly-Change'' := Num (clean_percent_val L (r ''Yearly-Change'')),
           ''World-Share'' := Num (clean_percent_val L (r ''World-Share''))) \<in> set (rows region3)"
      unfolding rows3 by simp
    from getnum_cells[OF g1 this] show "r ''Population'' = Num (numval (r ''Population''))"
      by simp
  qed
qed

section \<open>Scalar cleaner: properties\<close>

lemmas eval_defs =
  column_after_def mk_row_def region_cols_def bind_res_def getitem_def getnum_def setnum_def
  setitem_def setscalar_def add_column_def clean_in_place_def clean_percent_col_def
  clean_percent_val_def to_numeric_coerce_def strip_decoration_def str_replace_def
  sample_lib_def parse_decimal_def digit_val_def less_eq_char_def fsub_def fgt_def
  inf_of_sign_def

text \<open>
  C6. A textual value that, once \<open>%\<close> and \<open>,\<close> are stripped, is empty or is not a
  number for the library's parser is cleaned to the missing value NaN: the cleaner is a
  total function (it has no error result), it keeps the length of the column, and the
  value it gives is not zero.
\<close>

theorem clean_percent_unparseable_missing:
  assumes "i < length col" and "col ! i = Str s"
    and "strip_decoration s = [] \<or> parse_float L (strip_decoration s) = None"
  shows "length (clean_percent_col L col) = length col
         \<and> clean_percent_col L col ! i = NaN
         \<and> clean_percent_col L col ! i \<noteq> Fin 0"
  using assms
  by (auto simp: clean_percent_col_def clean_percent_val_def to_numeric_coerce_def)

text \<open>
  The cleaner on the column \<open>12.5%\<close>, \<open>n/a\<close>, \<open>%\<close> with the sample parser.
\<close>

theorem clean_percent_unparseable_missing_witness:
  "(1::nat) < length [Str ''12.5%'', Str ''n/a'', Str ''%'']
   \<and> strip_decoration ''n/a'' = ''n/a''
   \<and> parse_float sample_lib ''n/a'' = None
   \<and> clean_percent_col sample_lib [Str ''12.5%'', Str ''n/a'', Str ''%''] ! 1 = NaN
   \<and> clean_percent_col sample_lib [Str ''12.5%'', Str ''n/a'', Str ''%''] = [Fin (25 / 2), NaN, NaN]"
  using clean_percent_unparseable_missing
          [of 1 "[Str ''12.5%'', Str ''n/a'', Str ''%'']" "''n/a''" sample_lib]
  by (simp add: eval_defs)

section \<open>Region enricher: urban and rural population\<close>

lemma fmul_NaN_right: "fmul x NaN = NaN"
  by (cases x) simp_all

lemma fadd_NaN_right: "fadd x NaN = NaN"
  by (cases x) simp_all

lemma clean_percent_val_unparseable:
  assumes "strip_decoration s = [] \<or> parse_float L (strip_decoration s) = None"
  shows "clean_percent_val L (Str s) = NaN"
  using assms by (auto simp: clean_percent_val_def to_numeric_coerce_def)

lemma region_row_missing:
  assumes "isna (clean_percent_val L (r ''Urban-Pop-Perc''))"
  shows "region_row L r ''Urban_Pop'' = Num NaN" and "region_row L r ''Rural_Pop'' = Num NaN"
  using assms
  by (cases "clean_percent_val L (r ''Urban-Pop-Perc'')";
      simp add: region_row_def Let_def fsub_def fmul_NaN_right fadd_NaN_right)+

lemma region_row_sum:
  assumes "r ''Population'' = Num (Fin p)"
    and "\<not> isinf (clean_percent_val L (r ''Urban-Pop-Perc''))"
  shows "\<exists>u ru. region_row L r ''Urban_Pop'' = Num u \<and> region_row L r ''Rural_Pop'' = Num ru
           \<and> ((isna u \<and> isna ru) \<longleftrightarrow> isna (clean_percent_val L (r ''Urban-Pop-Perc'')))
           \<and> (\<not> isna (clean_percent_val L (r ''Urban-Pop-Perc'')) \<longrightarrow> fadd u ru = Fin p)"
  using assms
  by (cases "clean_percent_val L (r ''Urban-Pop-Perc'')")
     (simp_all add: region_row_def Let_def fsub_def)

lemma region_row_cells:
  "\<exists>u ru. region_row L r ''Urban_Pop'' = Num u \<and> region_row L r ''Rural_Pop'' = Num ru
     \<and> region_row L r ''Urban-Pop-Perc'' = Num (clean_percent_val L (r ''Urban-Pop-Perc''))"
  by (simp add: region_row_def Let_def)

text \<open>
  C3, as amended. In every row of the output, a cleaned \<open>Urban-Pop-Perc\<close> that is
  missing, as it is when the text failed to parse, makes \<open>Urban_Pop\<close> and \<open>Rural_Pop\<close>
  both missing. In a row whose \<open>Population\<close> is a present finite number and whose cleaned
  \<open>Urban-Pop-Perc\<close> is not an infinity the converse holds too, and when
  \<open>Urban-Pop-Perc\<close> is present \<open>Urban_Pop + Rural_Pop\<close> is \<open>Population\<close>.
\<close>

theorem region_urban_rural_population:
  assumes "process_region_data L region = Inr out"
    and "i < length (rows region)"
  shows "\<exists>u ru. (rows out ! i) ''Urban_Pop'' = Num u \<and> (rows out ! i) ''Rural_Pop'' = Num ru
           \<and> (rows out ! i) ''Urban-Pop-Perc''
               = Num (clean_percent_val L ((rows region ! i) ''Urban-Pop-Perc''))
           \<and> (isna (clean_percent_val L ((rows region ! i) ''Urban-Pop-Perc''))
                 \<longrightarrow> isna u \<and> isna ru)
           \<and> (\<forall>s. (rows region ! i) ''Urban-Pop-Perc'' = Str s
                 \<and> (strip_decoration s = [] \<or> parse_float L (strip_decoration s) = None)
                 \<longrightarrow> isna u \<and> isna ru)
           \<and> (\<forall>p. (rows region ! i) ''Population'' = Num (Fin p)
                 \<and> \<not> isinf (clean_percent_val L ((rows region ! i) ''Urban-Pop-Perc''))
                 \<longrightarrow> ((isna u \<and> isna ru)
                        \<longleftrightarrow> isna (clean_percent_val L ((rows region ! i) ''Urban-Pop-Perc'')))
                     \<and> (\<not> isna (clean_percent_val L ((rows region ! i) ''Urban-Pop-Perc''))
                          \<longrightarrow> fadd u ru = Fin p))"
proof -
  define r where "r = rows region ! i"
  define perc where "perc = clean_percent_val L (r ''Urban-Pop-Perc'')"
  have row: "rows out ! i = region_row L r"
    unfolding r_def using process_region_data_rows(1)[OF assms(1)] assms(2) by simp
  obtain u ru where u: "region_row L r ''Urban_Pop'' = Num u"
    and ru: "region_row L r ''Rural_Pop'' = Num ru"
    and pc: "region_row L r ''Urban-Pop-Perc'' = Num perc"
    unfolding perc_def using region_row_cells[of L r] by blast
  have missing: "isna perc \<longrightarrow> isna u \<and> isna ru"
    using region_row_missing[of L r] u ru unfolding perc_def by auto
  have unparsed: "\<forall>s. r ''Urban-Pop-Perc'' = Str s
                 \<and> (strip_decoration s = [] \<or> parse_float L (strip_decoration s) = None)
                 \<longrightarrow> isna u \<and> isna ru"
  proof (intro allI impI)
    fix s
    assume a: "r ''Urban-Pop-Perc'' = Str s
                 \<and> (strip_decoration s = [] \<or> parse_float L (strip_decoration s) = None)"
    then have "perc = NaN"
      unfolding perc_def using clean_percent_val_unparseable[of s L] by simp
    then show "isna u \<and> isna ru"
      using missing by simp
  qed
  have present: "\<forall>p. r ''Population'' = Num (Fin p) \<and> \<not> isinf perc
                 \<longrightarrow> ((isna u \<and> isna ru) \<longleftrightarrow> isna perc)
                     \<and> (\<not> isna perc \<longrightarrow> fadd u ru = Fin p)"
  proof (intro allI impI)
    fix p
    assume a: "r ''Population'' = Num (Fin p) \<and> \<not> isinf perc"
    then show "((isna u \<and> isna ru) \<longleftrightarrow> isna perc) \<and> (\<not> isna perc \<longrightarrow> fadd u ru = Fin p)"
      using region_row_sum[of r p L] u ru unfolding perc_def by auto
  qed
  show ?thesis
    unfolding row r_def[symmetric] perc_def[symmetric]
    using u ru pc missing unparsed present by blast
qed

text \<open>
  The scenario of the specification, Asia with a population of 1000 and 60 percent urban,
  and a second region whose percentage is the text \<open>n/a\<close>.
\<close>

theorem region_urban_rural_population_witness:
  "column_after (process_region_data sample_lib region_asia) ''Population''
     = Inr [Num (Fin 1000), Num (Fin 40)]
   \<and> column_after (process_region_data sample_lib region_asia) ''Urban-Pop-Perc''
     = Inr [Num (Fin 60), Num NaN]
   \<and> column_after (process_region_data sample_lib region_asia) ''Urban_Pop''
     = Inr [Num (Fin 600), Num NaN]
   \<and> column_after (process_region_data sample_lib region_asia) ''Rural_Pop''
     = Inr [Num (Fin 400), Num NaN]
   \<and> fadd (Fin 600) (Fin 400) = Fin 1000"
proof -
  have vals: "column_after (process_region_data sample_lib region_asia) ''Population''
     = Inr [Num (Fin 1000), Num (Fin 40)]
   \<and> column_after (process_region_data sample_lib region_asia) ''Urban-Pop-Perc''
     = Inr [Num (Fin 60), Num NaN]
   \<and> column_after (process_region_data sample_lib region_asia) ''Urban_Pop''
     = Inr [Num (Fin 600), Num NaN]
   \<and> column_after (process_region_data sample_lib region_asia) ''Rural_Pop''
     = Inr [Num (Fin 400), Num NaN]"
    by (simp add: process_region_data_def region_asia_def eval_defs)
  obtain out where ok: "process_region_data sample_lib region_asia = Inr out"
    using conjunct1[OF vals] column_after_Inr_D by blast
  have h0: "0 < length (rows region_asia)" and h1: "1 < length (rows region_asia)"
    by (simp_all add: region_asia_def)
  show ?thesis
    using region_urban_rural_population[OF ok h0] region_urban_rural_population[OF ok h1] vals
    by simp
qed

text \<open>
  C3 as stated fails on a row whose \<open>Population\<close> is missing: \<open>60%\<close> parses to 60,
  and both derived fields are missing all the same.
\<close>

theorem region_missing_population_counterexample:
  "column_after (process_region_data sample_lib region_missing_population) ''Urban-Pop-Perc''
     = Inr [Num (Fin 60)]
   \<and> column_after (process_region_data sample_lib region_missing_population) ''Urban_Pop''
     = Inr [Num NaN]
   \<and> column_after (process_region_data sample_lib region_missing_population) ''Rural_Pop''
     = Inr [Num NaN]"
  by (simp add: process_region_data_def region_missing_population_def eval_defs)

section \<open>Country enricher: properties\<close>

lemma length_rows_setitem:
  "length (rows (setitem df name cs)) = min (length (rows df)) (length cs)"
  by (simp add: setitem_def)

lemma rows_setitem_nth:
  "i < length (rows df) \<Longrightarrow> i < length cs \<Longrightarrow>
     rows (setitem df name cs) ! i = (rows df ! i)(name := cs ! i)"
  by (simp add: setitem_def)

lemma all_res_map_D:
  assumes "all_res (map f xs) = Inr ys"
  shows "length ys = length xs" and "i < length xs \<Longrightarrow> f (xs ! i) = Inr (ys ! i)"
proof -
  have eq: "map f xs = map Inr ys"
    using assms by (simp add: all_res_Inr)
  then show len: "length ys = length xs"
    by (metis length_map)
  show "i < length xs \<Longrightarrow> f (xs ! i) = Inr (ys ! i)"
  proof -
    assume i: "i < length xs"
    then have "map f xs ! i = map Inr ys ! i" using eq by simp
    then show ?thesis using i len by simp
  qed
qed

lemma numeric_cell: "(case c of Num v \<Rightarrow> True | Str s \<Rightarrow> False) \<Longrightarrow> c = Num (numval c)"
  by (cases c) auto

lemma getnum_numeric_col:
  assumes "numeric_col df name"
  shows "getnum df name = Inr (map (\<lambda>r. numval (r name)) (rows df))"
proof -
  have "\<forall>r \<in> set (rows df). r name = Num (numval (r name))"
    using assms by (auto simp: numeric_col_def list_all_iff intro: numeric_cell)
  then have "map (\<lambda>r. r name) (rows df) = map Num (map (\<lambda>r. numval (r name)) (rows df))"
    by (simp add: o_def)
  then show ?thesis
    using assms by (simp add: getnum_Inr numeric_col_def)
qed

lemma net_change_perc_rows:
  "rows (net_change_perc country) =
     (if ''Net_Change_perc'' \<notin> set (columns country)
      then map (net_change_row (''Yearly-Change'' \<in> set (columns country))) (rows country)
      else rows country)"
proof -
  have "rows (setitem country ''Net_Change_perc''
               (map mul_100 (map (\<lambda>r. r ''Yearly-Change'') (rows country))))
        = map (\<lambda>r. r(''Net_Change_perc'' := mul_100 (r ''Yearly-Change''))) (rows country)"
    using rows_setitem_map[of country "''Net_Change_perc''" "\<lambda>r. mul_100 (r ''Yearly-Change'')"]
    by (simp add: o_def)
  then show ?thesis
    by (simp add: net_change_perc_def getitem_def setscalar_def net_change_row_def)
qed

lemma net_change_perc_columns:
  "set (columns (net_change_perc country)) = insert ''Net_Change_perc'' (set (columns country))"
  by (auto simp: net_change_perc_def getitem_def setscalar_def setitem_def set_add_column)

lemma migrants_per_100k_Inr:
  assumes "migrants_per_100k df = Inr df'"
  shows "rows df' = map migrants_row (rows df)"
    and "set (columns df') = insert ''Migrants_per_100k'' (set (columns df))"
proof -
  from assms obtain mig pop where
    g1: "getnum df ''Migrants-net'' = Inr mig" and
    g2: "getnum df ''Population'' = Inr pop" and
    df': "df' = setnum df ''Migrants_per_100k''
            (map (\<lambda>(m, p). fmul (fdiv m p) (Fin 100000)) (zip mig pop))"
    unfolding migrants_per_100k_def by (elim bind_res_InrE Inr_inject) blast
  have "df' = setnum df ''Migrants_per_100k''
      (map (\<lambda>r. fmul (fdiv (numval (r ''Migrants-net'')) (numval (r ''Population''))) (Fin 100000))
           (rows df))"
    unfolding df' getnum_numval[OF g1] getnum_numval[OF g2]
    by (simp add: zip_map_same o_def)
  then show "rows df' = map migrants_row (rows df)"
    by (simp add: rows_setnum_map migrants_row_def)
  show "set (columns df') = insert ''Migrants_per_100k'' (set (columns df))"
    unfolding df' by (simp add: columns_setnum set_add_column)
qed

lemma flt_growing_aging_excl: "flt (Fin (21 / 10)) f \<Longrightarrow> flt f (Fin (18 / 10)) \<Longrightarrow> False"
  by (cases f) auto

lemma classify_aging_Inr:
  assumes "classify_aging cols r = Inr s"
  shows "(s = ''Growing'' \<or> s = ''Aging'' \<or> s = ''Stable'')
         \<and> (s = ''Growing'' \<longleftrightarrow> rule_growing r)
         \<and> (s = ''Aging'' \<longleftrightarrow> rule_aging r)"
proof (cases "r ''Fert-Rate''")
  case (Str t)
  then show ?thesis
    using assms
    by (auto simp: classify_aging_def and_then_def row_getitem_def bind_res_def
        rule_growing_def rule_aging_def split: if_splits)
next
  case f: (Num f)
  show ?thesis
  proof (cases "r ''Median-Age''")
    case (Str t)
    then show ?thesis
      using assms f
      by (auto simp: classify_aging_def and_then_def row_getitem_def bind_res_def
          rule_growing_def rule_aging_def split: if_splits)
  next
    case (Num a)
    then show ?thesis
      using assms f flt_growing_aging_excl[of f]
      by (auto simp: classify_aging_def and_then_def row_getitem_def bind_res_def
          rule_growing_def rule_aging_def fgt_def split: if_splits)
  qed
qed

lemma classify_aging_total:
  assumes "''Fert-Rate'' \<in> set cols" and "''Median-Age'' \<in> set cols"
    and "r ''Fert-Rate'' = Num f" and "r ''Median-Age'' = Num a"
  shows "\<exists>s. classify_aging cols r = Inr s"
  using assms
  by (simp add: classify_aging_def and_then_def row_getitem_def bind_res_def)

lemma process_country_data_steps:
  assumes "process_country_data country = Inr out"
  obtains c1 st where
    "migrants_per_100k (net_change_perc country) = Inr c1" and
    "all_res (map (classify_aging (columns c1)) (rows c1)) = Inr st" and
    "out = setitem c1 ''Demographic_Status'' (map Str st)"
  using assms unfolding process_country_data_def demographic_status_def
  by (elim bind_res_InrE Inr_inject) blast

lemma process_country_data_rows:
  assumes "process_country_data country = Inr out"
  shows "length (rows out) = length (rows country)"
    and "i < length (rows country) \<Longrightarrow>
           \<exists>s cols. classify_aging cols (migrants_row (rows (net_change_perc country) ! i)) = Inr s
              \<and> rows out ! i = (migrants_row (rows (net_change_perc country) ! i))
                                  (''Demographic_Status'' := Str s)"
proof -
  from assms obtain c1 st where
    m: "migrants_per_100k (net_change_perc country) = Inr c1" and
    a: "all_res (map (classify_aging (columns c1)) (rows c1)) = Inr st" and
    out: "out = setitem c1 ''Demographic_Status'' (map Str st)"
    by (rule process_country_data_steps)
  have r1: "rows c1 = map migrants_row (rows (net_change_perc country))"
    by (rule migrants_per_100k_Inr(1)[OF m])
  have len0: "length (rows (net_change_perc country)) = length (rows country)"
    by (simp add: net_change_perc_rows)
  have len1: "length (rows c1) = length (rows country)"
    using r1 len0 by simp
  have lenst: "length st = length (rows c1)"
    by (rule all_res_map_D(1)[OF a])
  show "length (rows out) = length (rows country)"
    unfolding out using len1 lenst by (simp add: length_rows_setitem)
  show "i < length (rows country) \<Longrightarrow>
           \<exists>s cols. classify_aging cols (migrants_row (rows (net_change_perc country) ! i)) = Inr s
              \<and> rows out ! i = (migrants_row (rows (net_change_perc country) ! i))
                                  (''Demographic_Status'' := Str s)"
  proof -
    assume i: "i < length (rows country)"
    then have i1: "i < length (rows c1)" using len1 by simp
    have c: "classify_aging (columns c1) (rows c1 ! i) = Inr (st ! i)"
      by (rule all_res_map_D(2)[OF a i1])
    have ri: "rows c1 ! i = migrants_row (rows (net_change_perc country) ! i)"
      using r1 i len0 by simp
    have "rows out ! i = (rows c1 ! i)(''Demographic_Status'' := Str (st ! i))"
      unfolding out using i1 lenst by (simp add: rows_setitem_nth)
    then show ?thesis using c ri by auto
  qed
qed

lemmas country_eval_defs =
  process_country_data_def demographic_status_def classify_aging_def and_then_def
  row_getitem_def migrants_per_100k_def net_change_perc_def country_sample_def
  country_cols_def country_row_def numeric_col_def rule_growing_def rule_aging_def

lemma rule_growing_unchanged:
  "rule_growing (migrants_row r) = rule_growing r"
  "rule_growing (net_change_row b r) = rule_growing r"
  by (simp_all add: rule_growing_def migrants_row_def net_change_row_def)

lemma rule_aging_unchanged:
  "rule_aging (migrants_row r) = rule_aging r"
  "rule_aging (net_change_row b r) = rule_aging r"
  by (simp_all add: rule_aging_def migrants_row_def net_change_row_def)

lemma rule_growing_boundary:
  "r ''Fert-Rate'' = Num (Fin (21 / 10)) \<Longrightarrow> \<not> rule_growing r"
  by (simp add: rule_growing_def fgt_def split: cell.splits)

lemma rule_missing:
  "r ''Fert-Rate'' = Num NaN \<or> r ''Median-Age'' = Num NaN \<Longrightarrow> \<not> rule_growing r \<and> \<not> rule_aging r"
  by (auto simp: rule_growing_def rule_aging_def fgt_def split: cell.splits)

lemma three_way:
  assumes "s = G \<or> s = A \<or> s = S" and "s = G \<longleftrightarrow> g" and "s = A \<longleftrightarrow> a"
    and "G \<noteq> S" and "A \<noteq> S"
  shows "s = S \<longleftrightarrow> \<not> g \<and> \<not> a"
  using assms by auto

lemma net_change_perc_nth:
  "i < length (rows country) \<Longrightarrow>
     rows (net_change_perc country) ! i =
       (if ''Net_Change_perc'' \<notin> set (columns country)
        then net_change_row (''Yearly-Change'' \<in> set (columns country)) (rows country ! i)
        else rows country ! i)"
  by (simp add: net_change_perc_rows)

lemma country_out_row:
  assumes "process_country_data country = Inr out" and "i < length (rows country)"
  obtains s cols r0 where "classify_aging cols (migrants_row r0) = Inr s"
    and "rows out ! i = (migrants_row r0)(''Demographic_Status'' := Str s)"
    and "r0 = (if ''Net_Change_perc'' \<notin> set (columns country)
               then net_change_row (''Yearly-Change'' \<in> set (columns country)) (rows country ! i)
               else rows country ! i)"
proof -
  from process_country_data_rows(2)[OF assms] obtain s cols where
    "classify_aging cols (migrants_row (rows (net_change_perc country) ! i)) = Inr s"
    "rows out ! i = (migrants_row (rows (net_change_perc country) ! i))
                                  (''Demographic_Status'' := Str s)"
    by blast
  then show ?thesis
    using that[of cols "rows (net_change_perc country) ! i" s] net_change_perc_nth[OF assms(2)]
    by simp
qed

text \<open>
  C1. Every row of the enriched Country table has exactly one status, one of
  \<open>Growing\<close>, \<open>Aging\<close>, \<open>Stable\<close>: it is \<open>Growing\<close> iff
  \<open>Fert-Rate > 2.1\<close> and \<open>Median-Age < 30\<close>, \<open>Aging\<close> iff \<open>Fert-Rate < 1.8\<close>
  and \<open>Median-Age > 40\<close>, and \<open>Stable\<close> in every other case, a missing
  \<open>Fert-Rate\<close> or \<open>Median-Age\<close> included; a row with \<open>Fert-Rate = 2.1\<close> is not
  \<open>Growing\<close>.
\<close>

theorem demographic_status_classification:
  assumes "process_country_data country = Inr out"
    and "i < length (rows country)"
  shows "\<exists>s. (rows out ! i) ''Demographic_Status'' = Str s
           \<and> (s = ''Growing'' \<or> s = ''Aging'' \<or> s = ''Stable'')
           \<and> (s = ''Growing'' \<longleftrightarrow> rule_growing (rows country ! i))
           \<and> (s = ''Aging'' \<longleftrightarrow> rule_aging (rows country ! i))
           \<and> (s = ''Stable'' \<longleftrightarrow>
                \<not> rule_growing (rows country ! i) \<and> \<not> rule_aging (rows country ! i))
           \<and> ((rows country ! i) ''Fert-Rate'' = Num (Fin (21 / 10)) \<longrightarrow> s \<noteq> ''Growing'')
           \<and> ((rows country ! i) ''Fert-Rate'' = Num NaN
                \<or> (rows country ! i) ''Median-Age'' = Num NaN \<longrightarrow> s = ''Stable'')"
proof -
  obtain s cols r0 where
    c: "classify_aging cols (migrants_row r0) = Inr s" and
    o: "rows out ! i = (migrants_row r0)(''Demographic_Status'' := Str s)" and
    r0: "r0 = (if ''Net_Change_perc'' \<notin> set (columns country)
                then net_change_row (''Yearly-Change'' \<in> set (columns country)) (rows country ! i)
                else rows country ! i)"
    by (rule country_out_row[OF assms])
  have g: "rule_growing (migrants_row r0) = rule_growing (rows country ! i)"
    and a: "rule_aging (migrants_row r0) = rule_aging (rows country ! i)"
    unfolding r0 by (simp_all add: rule_growing_unchanged rule_aging_unchanged)
  note k = classify_aging_Inr[OF c, unfolded g a]
  note k1 = conjunct1[OF k] and k2 = conjunct1[OF conjunct2[OF k]]
    and k3 = conjunct2[OF conjunct2[OF k]]
  have st: "s = ''Stable'' \<longleftrightarrow>
                \<not> rule_growing (rows country ! i) \<and> \<not> rule_aging (rows country ! i)"
    by (rule three_way[OF k1 k2 k3]) simp_all
  show ?thesis
  proof (rule exI[of _ s], intro conjI)
    show "(rows out ! i) ''Demographic_Status'' = Str s"
      unfolding o by simp
    show "s = ''Growing'' \<or> s = ''Aging'' \<or> s = ''Stable''" by (rule k1)
    show "s = ''Growing'' \<longleftrightarrow> rule_growing (rows country ! i)" by (rule k2)
    show "s = ''Aging'' \<longleftrightarrow> rule_aging (rows country ! i)" by (rule k3)
    show "s = ''Stable'' \<longleftrightarrow>
                \<not> rule_growing (rows country ! i) \<and> \<not> rule_aging (rows country ! i)"
      by (rule st)
    show "(rows country ! i) ''Fert-Rate'' = Num (Fin (21 / 10)) \<longrightarrow> s \<noteq> ''Growing''"
      using rule_growing_boundary[of "rows country ! i"] k2 by simp
    show "(rows country ! i) ''Fert-Rate'' = Num NaN
                \<or> (rows country ! i) ''Median-Age'' = Num NaN \<longrightarrow> s = ''Stable''"
      using rule_missing[of "rows country ! i"] st by simp
  qed
qed

text \<open>
  The scenarios of the specification (2.5 and 25, 1.5 and 45, 2.0 and 35), the boundary
  2.1 and a missing fertility rate.
\<close>

lemma country_sample_ok: "\<exists>out. process_country_data country_sample = Inr out"
  by (simp add: country_eval_defs eval_defs)

theorem demographic_status_classification_witness:
  "column_after (process_country_data country_sample) ''Demographic_Status''
     = Inr [Str ''Growing'', Str ''Aging'', Str ''Stable'', Str ''Stable'', Str ''Stable'']
   \<and> rule_growing (rows country_sample ! 0) \<and> \<not> rule_aging (rows country_sample ! 0)"
proof -
  obtain out where ok: "process_country_data country_sample = Inr out"
    using country_sample_ok by blast
  have i: "0 < length (rows country_sample)"
    by (simp add: country_sample_def)
  have vals: "column_after (process_country_data country_sample) ''Demographic_Status''
     = Inr [Str ''Growing'', Str ''Aging'', Str ''Stable'', Str ''Stable'', Str ''Stable'']"
    by (simp add: country_eval_defs eval_defs)
  have r: "rule_growing (rows country_sample ! 0) \<and> \<not> rule_aging (rows country_sample ! 0)"
    by (simp add: country_eval_defs eval_defs)
  show ?thesis
    using demographic_status_classification[OF ok i] vals r by simp
qed

text \<open>
  C7, as amended. When the frame has no column \<open>Net_Change_perc\<close>: with a column
  \<open>Yearly-Change\<close> every row gets \<open>Yearly-Change * 100\<close>, and a missing value stays
  missing; without a column \<open>Yearly-Change\<close> every row gets 0.
\<close>

theorem net_change_perc_value:
  assumes "process_country_data country = Inr out"
    and "''Net_Change_perc'' \<notin> set (columns country)"
    and "i < length (rows country)"
  shows "(''Yearly-Change'' \<notin> set (columns country)
            \<longrightarrow> (rows out ! i) ''Net_Change_perc'' = Num (Fin 0))
       \<and> (''Yearly-Change'' \<in> set (columns country)
            \<longrightarrow> (rows out ! i) ''Net_Change_perc'' = mul_100 ((rows country ! i) ''Yearly-Change''))
       \<and> (''Yearly-Change'' \<in> set (columns country)
            \<and> (rows country ! i) ''Yearly-Change'' = Num NaN
            \<longrightarrow> (rows out ! i) ''Net_Change_perc'' = Num NaN)
       \<and> (\<forall>y. ''Yearly-Change'' \<in> set (columns country)
            \<and> (rows country ! i) ''Yearly-Change'' = Num (Fin y)
            \<longrightarrow> (rows out ! i) ''Net_Change_perc'' = Num (Fin (y * 100)))"
proof -
  obtain s cols r0 where
    o: "rows out ! i = (migrants_row r0)(''Demographic_Status'' := Str s)" and
    r0: "r0 = (if ''Net_Change_perc'' \<notin> set (columns country)
                then net_change_row (''Yearly-Change'' \<in> set (columns country)) (rows country ! i)
                else rows country ! i)"
    by (rule country_out_row[OF assms(1) assms(3)])
  have "(rows out ! i) ''Net_Change_perc''
          = (if ''Yearly-Change'' \<in> set (columns country)
             then mul_100 ((rows country ! i) ''Yearly-Change'') else Num (Fin 0))"
    unfolding o r0 using assms(2) by (simp add: migrants_row_def net_change_row_def)
  then show ?thesis by simp
qed

text \<open>The sample table: 0.015 becomes 1.5.\<close>

theorem net_change_perc_value_witness:
  "''Net_Change_perc'' \<notin> set (columns country_sample)
   \<and> ''Yearly-Change'' \<in> set (columns country_sample)
   \<and> (rows country_sample ! 0) ''Yearly-Change'' = Num (Fin (3 / 200))
   \<and> column_after (process_country_data country_sample) ''Net_Change_perc''
       = Inr [Num (Fin (3 / 2)), Num NaN, Num (Fin (1 / 5)), Num (Fin 0), Num (Fin 0)]"
proof -
  obtain out where ok: "process_country_data country_sample = Inr out"
    using country_sample_ok by blast
  have h2: "''Net_Change_perc'' \<notin> set (columns country_sample)"
    by (simp add: country_sample_def country_cols_def)
  have h3: "0 < length (rows country_sample)"
    by (simp add: country_sample_def)
  have h4: "''Yearly-Change'' \<in> set (columns country_sample)
     \<and> (rows country_sample ! 0) ''Yearly-Change'' = Num (Fin (3 / 200))"
    by (simp add: country_sample_def country_cols_def country_row_def mk_row_def)
  have vals: "column_after (process_country_data country_sample) ''Net_Change_perc''
       = Inr [Num (Fin (3 / 2)), Num NaN, Num (Fin (1 / 5)), Num (Fin 0), Num (Fin 0)]"
    by (simp add: country_eval_defs eval_defs)
  show ?thesis
    using net_change_perc_value[OF ok h2 h3] h2 h4 vals by simp
qed

text \<open>
  C7 as stated fails on the second row of the sample table: its \<open>Yearly-Change\<close> is
  missing, and its \<open>Net_Change_perc\<close> is missing, not 0.
\<close>

theorem net_change_perc_missing_counterexample:
  "getitem country_sample ''Yearly-Change''
     = Inr [Num (Fin (3 / 200)), Num NaN, Num (Fin (1 / 500)), Num (Fin 0), Num (Fin 0)]
   \<and> column_after (process_country_data country_sample) ''Net_Change_perc''
     = Inr [Num (Fin (3 / 2)), Num NaN, Num (Fin (1 / 5)), Num (Fin 0), Num (Fin 0)]"
  by (simp add: country_eval_defs eval_defs)

lemma all_res_total:
  "\<forall>x \<in> set xs. \<exists>y. f x = Inr y \<Longrightarrow> \<exists>ys. all_res (map f xs) = Inr ys"
proof (induction xs)
  case Nil
  then show ?case by simp
next
  case (Cons x xs)
  then obtain y ys where "f x = Inr y" and "all_res (map f xs) = Inr ys"
    by auto
  then show ?case by simp
qed

lemma numeric_col_net_change:
  assumes "numeric_col country name" and "name \<noteq> ''Net_Change_perc''"
  shows "numeric_col (net_change_perc country) name"
  using assms
  by (auto simp: numeric_col_def net_change_perc_columns net_change_perc_rows
      list_all_iff net_change_row_def)

lemma process_country_data_total:
  assumes "numeric_col country ''Migrants-net''" and "numeric_col country ''Population''"
    and "numeric_col country ''Fert-Rate''" and "numeric_col country ''Median-Age''"
  shows "\<exists>out. process_country_data country = Inr out"
proof -
  define c0 where "c0 = net_change_perc country"
  have n: "numeric_col c0 ''Migrants-net''" "numeric_col c0 ''Population''"
    "numeric_col c0 ''Fert-Rate''" "numeric_col c0 ''Median-Age''"
    unfolding c0_def using assms by (simp_all add: numeric_col_net_change)
  obtain c1 where m: "migrants_per_100k c0 = Inr c1"
    by (simp add: migrants_per_100k_def getnum_numeric_col[OF n(1)]
        getnum_numeric_col[OF n(2)] bind_res_def)
  have cols: "''Fert-Rate'' \<in> set (columns c1)" "''Median-Age'' \<in> set (columns c1)"
    using migrants_per_100k_Inr(2)[OF m] n(3,4) by (simp_all add: numeric_col_def)
  have "\<forall>r \<in> set (rows c1). \<exists>s. classify_aging (columns c1) r = Inr s"
  proof
    fix r assume "r \<in> set (rows c1)"
    then obtain r0 where r0: "r0 \<in> set (rows c0)" and r: "r = migrants_row r0"
      using migrants_per_100k_Inr(1)[OF m] by auto
    have "r0 ''Fert-Rate'' = Num (numval (r0 ''Fert-Rate''))"
      "r0 ''Median-Age'' = Num (numval (r0 ''Median-Age''))"
      using n(3,4) r0 by (auto simp: numeric_col_def list_all_iff intro: numeric_cell)
    then have "r ''Fert-Rate'' = Num (numval (r0 ''Fert-Rate''))"
      "r ''Median-Age'' = Num (numval (r0 ''Median-Age''))"
      unfolding r by (simp_all add: migrants_row_def)
    then show "\<exists>s. classify_aging (columns c1) r = Inr s"
      by (rule classify_aging_total[OF cols])
  qed
  then obtain st where "all_res (map (classify_aging (columns c1)) (rows c1)) = Inr st"
    using all_res_total by blast
  then show ?thesis
    using m unfolding process_country_data_def demographic_status_def c0_def
    by (simp add: bind_res_def)
qed

text \<open>
  C10, as amended. On a Country table whose four numeric columns are numeric the enricher
  returns a table. In a row with \<open>Population = 0\<close> the cell \<open>Migrants_per_100k\<close> of that
  table is an infinity of the sign of \<open>Migrants-net\<close> when \<open>Migrants-net\<close> is not zero,
  and it is missing (NaN) exactly when \<open>Migrants-net\<close> is 0 or missing.
\<close>

theorem migrants_per_100k_zero_population:
  assumes "numeric_col country ''Migrants-net''" and "numeric_col country ''Population''"
    and "numeric_col country ''Fert-Rate''" and "numeric_col country ''Median-Age''"
    and "i < length (rows country)"
    and "(rows country ! i) ''Population'' = Num (Fin 0)"
    and "(rows country ! i) ''Migrants-net'' = Num mv"
  shows "\<exists>out v. process_country_data country = Inr out
           \<and> (rows out ! i) ''Migrants_per_100k'' = Num v
           \<and> (\<forall>m. mv = Fin m \<and> 0 < m \<longrightarrow> v = PInf)
           \<and> (\<forall>m. mv = Fin m \<and> m < 0 \<longrightarrow> v = NInf)
           \<and> (mv = PInf \<longrightarrow> v = PInf)
           \<and> (mv = NInf \<longrightarrow> v = NInf)
           \<and> (isna v \<longleftrightarrow> mv = Fin 0 \<or> mv = NaN)"
proof -
  obtain out where ok: "process_country_data country = Inr out"
    using process_country_data_total[OF assms(1-4)] by blast
  obtain s cols r0 where
    o: "rows out ! i = (migrants_row r0)(''Demographic_Status'' := Str s)" and
    r0: "r0 = (if ''Net_Change_perc'' \<notin> set (columns country)
                then net_change_row (''Yearly-Change'' \<in> set (columns country)) (rows country ! i)
                else rows country ! i)"
    by (rule country_out_row[OF ok assms(5)])
  define v where "v = fmul (fdiv mv (Fin 0)) (Fin 100000)"
  have "r0 ''Population'' = Num (Fin 0)" "r0 ''Migrants-net'' = Num mv"
    unfolding r0 using assms(6,7) by (simp_all add: net_change_row_def)
  then have cell: "(rows out ! i) ''Migrants_per_100k'' = Num v"
    unfolding o v_def by (simp add: migrants_row_def)
  have signs: "(\<forall>m. mv = Fin m \<and> 0 < m \<longrightarrow> v = PInf)
           \<and> (\<forall>m. mv = Fin m \<and> m < 0 \<longrightarrow> v = NInf)
           \<and> (mv = PInf \<longrightarrow> v = PInf)
           \<and> (mv = NInf \<longrightarrow> v = NInf)
           \<and> (isna v \<longleftrightarrow> mv = Fin 0 \<or> mv = NaN)"
    unfolding v_def by (cases mv) (auto simp: inf_of_sign_def)
  show ?thesis
    using ok cell signs by blast
qed

text \<open>
  The third and the fourth row of the sample table: 7 migrants and 0 migrants, population 0.
\<close>

theorem migrants_per_100k_zero_population_witness:
  "numeric_col country_sample ''Migrants-net'' \<and> numeric_col country_sample ''Population''
   \<and> numeric_col country_sample ''Fert-Rate'' \<and> numeric_col country_sample ''Median-Age''
   \<and> (rows country_sample ! 2) ''Population'' = Num (Fin 0)
   \<and> (rows country_sample ! 2) ''Migrants-net'' = Num (Fin 7)
   \<and> (rows country_sample ! 3) ''Population'' = Num (Fin 0)
   \<and> (rows country_sample ! 3) ''Migrants-net'' = Num (Fin 0)
   \<and> column_after (process_country_data country_sample) ''Migrants_per_100k''
       = Inr [Num (Fin (- 500)), Num (Fin 200), Num PInf, Num NaN, Num NInf]"
proof -
  have h: "numeric_col country_sample ''Migrants-net''" "numeric_col country_sample ''Population''"
    "numeric_col country_sample ''Fert-Rate''" "numeric_col country_sample ''Median-Age''"
    by (simp_all add: country_eval_defs mk_row_def)
  have i: "2 < length (rows country_sample)" and j: "3 < length (rows country_sample)"
    by (simp_all add: country_sample_def)
  have c: "(rows country_sample ! 2) ''Population'' = Num (Fin 0)"
    "(rows country_sample ! 2) ''Migrants-net'' = Num (Fin 7)"
    by (simp_all add: country_sample_def country_row_def mk_row_def)
  have d: "(rows country_sample ! 3) ''Population'' = Num (Fin 0)"
    "(rows country_sample ! 3) ''Migrants-net'' = Num (Fin 0)"
    by (simp_all add: country_sample_def country_row_def mk_row_def)
  have vals: "column_after (process_country_data country_sample) ''Migrants_per_100k''
       = Inr [Num (Fin (- 500)), Num (Fin 200), Num PInf, Num NaN, Num NInf]"
    by (simp add: country_eval_defs eval_defs)
  show ?thesis
    using migrants_per_100k_zero_population[OF h i c]
      migrants_per_100k_zero_population[OF h j d] h c d vals
    by simp
qed

text \<open>
  C10 as stated fails on the fourth row of the sample table: its \<open>Population\<close> is 0 and
  its \<open>Migrants-net\<close> is 0, and its \<open>Migrants_per_100k\<close> is NaN, a missing value.
\<close>

theorem migrants_per_100k_missing_counterexample:
  "getitem country_sample ''Population''
     = Inr [Num (Fin 1000), Num (Fin 500), Num (Fin 0), Num (Fin 0), Num (Fin 0)]
   \<and> getitem country_sample ''Migrants-net''
     = Inr [Num (Fin (- 5)), Num (Fin 1), Num (Fin 7), Num (Fin 0), Num (Fin (- 3))]
   \<and> column_after (process_country_data country_sample) ''Migrants_per_100k''
     = Inr [Num (Fin (- 500)), Num (Fin 200), Num PInf, Num NaN, Num NInf]
   \<and> isna NaN"
  by (simp add: country_eval_defs eval_defs)

section \<open>Undernourishment enricher: properties\<close>

lemmas und_eval_defs =
  share_sums_def process_undernourishment_data_def und_cols_def und_row_def und_sample_def
  und_none_undernourished_def series_sum_def Let_def

lemma foldl_fadd_fin:
  assumes "\<forall>v \<in> set xs. \<not> isinf v"
  shows "foldl fadd (Fin a) (filter (\<lambda>v. \<not> isna v) xs) = Fin (a + sum_list (map finpart xs))"
  using assms
proof (induction xs arbitrary: a)
  case Nil
  then show ?case by simp
next
  case (Cons x xs)
  then show ?case by (cases x) (simp_all add: add.assoc)
qed

lemma series_sum_fin:
  assumes "\<forall>v \<in> set xs. \<not> isinf v"
  shows "series_sum xs = Fin (sum_list (map finpart xs))"
  using foldl_fadd_fin[OF assms, of 0] by (simp add: series_sum_def)

lemma share_not_inf:
  assumes "\<not> isinf v" and "t \<noteq> 0"
  shows "\<not> isinf (fmul (fdiv v (Fin t)) (Fin 100))"
    and "finpart (fmul (fdiv v (Fin t)) (Fin 100)) = finpart v / t * 100"
  using assms by (cases v; simp)+

lemma sum_list_shares:
  "sum_list (map (\<lambda>v. finpart v / t * 100) xs) = sum_list (map finpart xs) / t * 100"
  by (induction xs) (simp_all add: add_divide_distrib distrib_right)

lemma series_sum_shares:
  assumes "\<forall>v \<in> set xs. \<not> isinf v" and "series_sum xs \<noteq> Fin 0"
  shows "series_sum (map (\<lambda>v. fmul (fdiv v (series_sum xs)) (Fin 100)) xs) = Fin 100"
proof -
  define t where "t = sum_list (map finpart xs)"
  have tot: "series_sum xs = Fin t"
    unfolding t_def by (rule series_sum_fin[OF assms(1)])
  have t0: "t \<noteq> 0"
    using assms(2) tot by simp
  have fin: "\<forall>w \<in> set (map (\<lambda>v. fmul (fdiv v (Fin t)) (Fin 100)) xs). \<not> isinf w"
    using assms(1) share_not_inf(1)[OF _ t0] by auto
  have e1: "map finpart (map (\<lambda>v. fmul (fdiv v (Fin t)) (Fin 100)) xs)
          = map (\<lambda>v. finpart v / t * 100) xs"
    using assms(1) share_not_inf(2)[OF _ t0] by simp
  have "series_sum (map (\<lambda>v. fmul (fdiv v (Fin t)) (Fin 100)) xs)
          = Fin (sum_list (map finpart (map (\<lambda>v. fmul (fdiv v (Fin t)) (Fin 100)) xs)))"
    by (rule series_sum_fin[OF fin])
  also have "\<dots> = Fin (sum_list (map (\<lambda>v. finpart v / t * 100) xs))"
    by (simp only: e1)
  also have "\<dots> = Fin (sum_list (map finpart xs) / t * 100)"
    by (simp only: sum_list_shares)
  finally have "series_sum (map (\<lambda>v. fmul (fdiv v (Fin t)) (Fin 100)) xs)
          = Fin (sum_list (map finpart xs) / t * 100)" .
  then show ?thesis
    unfolding tot using t0 by (simp add: t_def)
qed

lemma map_proj_setitem_other:
  assumes "name' \<noteq> name" and "length cs = length (rows df)"
  shows "map (\<lambda>r. r name') (rows (setitem df name cs)) = map (\<lambda>r. r name') (rows df)"
proof -
  have "map (\<lambda>r. r name') (rows (setitem df name cs)) = map (\<lambda>(r, c). r name') (zip (rows df) cs)"
    using assms(1) by (simp add: setitem_def o_def case_prod_unfold)
  also have "\<dots> = map (\<lambda>r. r name') (map fst (zip (rows df) cs))"
    by (simp add: o_def case_prod_unfold)
  also have "\<dots> = map (\<lambda>r. r name') (rows df)"
    using assms(2) by simp
  finally show ?thesis .
qed

lemma map_proj_setitem_same:
  assumes "length cs = length (rows df)"
  shows "map (\<lambda>r. r name) (rows (setitem df name cs)) = cs"
proof -
  have "map (\<lambda>r. r name) (rows (setitem df name cs)) = map snd (zip (rows df) cs)"
    by (simp add: setitem_def o_def case_prod_unfold)
  then show ?thesis using assms by simp
qed

lemma length_rows_setnum:
  "length vs = length (rows df) \<Longrightarrow> length (rows (setnum df name vs)) = length (rows df)"
  by (simp add: setnum_def setitem_def)

lemma getnum_setnum_same:
  assumes "length vs = length (rows df)"
  shows "getnum (setnum df name vs) name = Inr vs"
  using map_proj_setitem_same[of "map Num vs" df name] assms
  by (simp add: getnum_Inr setnum_def columns_setitem set_add_column)

lemma getnum_setnum_other:
  assumes "name' \<noteq> name" and "length vs = length (rows df)"
  shows "getnum (setnum df name vs) name' = Inr ws \<longleftrightarrow> getnum df name' = Inr ws"
  using map_proj_setitem_other[OF assms(1), of "map Num vs" df] assms
  by (simp add: getnum_Inr setnum_def columns_setitem set_add_column)

lemma getnum_length: "getnum df name = Inr vs \<Longrightarrow> length vs = length (rows df)"
  by (metis getnum_numval length_map)

text \<open>
  C4, as amended. On a table whose two columns are numeric the enricher returns, and each
  sum stands on its own column: when \<open>Undernourished-People\<close> has no infinite value and
  a total that is not zero, \<open>Global_Burden_Share\<close> sums to 100; when \<open>Population\<close> has
  no infinite value and a total that is not zero, \<open>Population_Share\<close> sums to 100
  (exactly in real arithmetic).
\<close>

theorem undernourishment_shares_sum_to_100:
  assumes "getnum und ''Undernourished-People'' = Inr people"
    and "getnum und ''Population'' = Inr pop"
  shows "\<exists>burden_sum share_sum. share_sums und = Inr (burden_sum, share_sum)
           \<and> ((\<forall>v \<in> set people. \<not> isinf v) \<and> series_sum people \<noteq> Fin 0
                 \<longrightarrow> burden_sum = Fin 100)
           \<and> ((\<forall>v \<in> set pop. \<not> isinf v) \<and> series_sum pop \<noteq> Fin 0
                 \<longrightarrow> share_sum = Fin 100)"
proof -
  define burden where "burden = map (\<lambda>u. fmul (fdiv u (series_sum people)) (Fin 100)) people"
  define share where "share = map (\<lambda>p. fmul (fdiv p (series_sum pop)) (Fin 100)) pop"
  define und1 where "und1 = setnum und ''Undernourished_per_1000''
                  (map (\<lambda>(u, p). fmul (fdiv u p) (Fin 1000)) (zip people pop))"
  define und2 where "und2 = setnum und1 ''Undernourished_Million''
                  (map (\<lambda>u. fdiv u (Fin 1000000)) people)"
  define und3 where "und3 = setnum und2 ''Global_Burden_Share'' burden"
  define und4 where "und4 = setnum und3 ''Population_Share'' share"
  define und5 where "und5 = setnum und4 ''Burden_vs_Pop_Diff''
                  (map (\<lambda>(b, s). fsub b s) (zip burden share))"
  have p: "process_undernourishment_data und = Inr (und5, series_sum people, series_sum pop)"
    unfolding process_undernourishment_data_def assms(1,2) bind_res_def Let_def
      und5_def und4_def und3_def und2_def und1_def burden_def share_def
    by simp
  have lp: "length people = length (rows und)" and lq: "length pop = length (rows und)"
    using assms(1,2) by (simp_all add: getnum_length)
  have l1: "length (rows und1) = length (rows und)"
    unfolding und1_def using lp lq by (simp add: length_rows_setnum)
  have l2: "length (rows und2) = length (rows und)"
    unfolding und2_def using lp l1 by (simp add: length_rows_setnum)
  have l3: "length (rows und3) = length (rows und)"
    unfolding und3_def burden_def using lp l2 by (simp add: length_rows_setnum)
  have l4: "length (rows und4) = length (rows und)"
    unfolding und4_def share_def using lq l3 by (simp add: length_rows_setnum)
  have gs4: "getnum und4 ''Population_Share'' = Inr share"
    unfolding und4_def using lq l3 by (simp add: getnum_setnum_same share_def)
  have gb3: "getnum und3 ''Global_Burden_Share'' = Inr burden"
    unfolding und3_def using lp l2 by (simp add: getnum_setnum_same burden_def)
  have gb4: "getnum und4 ''Global_Burden_Share'' = Inr burden"
    unfolding und4_def using gb3 lq l3 by (simp add: getnum_setnum_other share_def)
  have gb5: "getnum und5 ''Global_Burden_Share'' = Inr burden"
    unfolding und5_def using gb4 lp lq l4
    by (simp add: getnum_setnum_other share_def burden_def)
  have gs5: "getnum und5 ''Population_Share'' = Inr share"
    unfolding und5_def using gs4 lp lq l4
    by (simp add: getnum_setnum_other share_def burden_def)
  have sb: "(\<forall>v \<in> set people. \<not> isinf v) \<and> series_sum people \<noteq> Fin 0
              \<longrightarrow> series_sum burden = Fin 100"
    unfolding burden_def using series_sum_shares[of people] by blast
  have ss: "(\<forall>v \<in> set pop. \<not> isinf v) \<and> series_sum pop \<noteq> Fin 0
              \<longrightarrow> series_sum share = Fin 100"
    unfolding share_def using series_sum_shares[of pop] by blast
  have "share_sums und = Inr (series_sum burden, series_sum share)"
    unfolding share_sums_def p by (simp add: bind_res_def gb5 gs5)
  then show ?thesis
    using sb ss by blast
qed

text \<open>
  The scenario of the specification, two countries with 50 undernourished people each,
  and a third whose count is missing.
\<close>

theorem undernourishment_shares_sum_to_100_witness:
  "getnum und_sample ''Undernourished-People'' = Inr [Fin 50, Fin 50, NaN]
   \<and> getnum und_sample ''Population'' = Inr [Fin 300, Fin 100, Fin 600]
   \<and> series_sum [Fin 50, Fin 50, NaN] = Fin 100
   \<and> series_sum [Fin 300, Fin 100, Fin 600] = Fin 1000
   \<and> column_after (map_sum id fst (process_undernourishment_data und_sample)) ''Global_Burden_Share''
       = Inr [Num (Fin 50), Num (Fin 50), Num NaN]
   \<and> share_sums und_sample = Inr (Fin 100, Fin 100)"
proof -
  have g1: "getnum und_sample ''Undernourished-People'' = Inr [Fin 50, Fin 50, NaN]"
    and g2: "getnum und_sample ''Population'' = Inr [Fin 300, Fin 100, Fin 600]"
    by (simp_all add: und_eval_defs eval_defs)
  have s: "series_sum [Fin 50, Fin 50, NaN] = Fin 100"
    "series_sum [Fin 300, Fin 100, Fin 600] = Fin 1000"
    by (simp_all add: series_sum_def)
  have c: "column_after (map_sum id fst (process_undernourishment_data und_sample)) ''Global_Burden_Share''
       = Inr [Num (Fin 50), Num (Fin 50), Num NaN]"
    by (simp add: und_eval_defs eval_defs)
  obtain burden_sum share_sum where
    r: "share_sums und_sample = Inr (burden_sum, share_sum)" and
    b: "(\<forall>v \<in> set [Fin 50, Fin 50, NaN]. \<not> isinf v) \<and> series_sum [Fin 50, Fin 50, NaN] \<noteq> Fin 0
          \<longrightarrow> burden_sum = Fin 100" and
    p: "(\<forall>v \<in> set [Fin 300, Fin 100, Fin 600]. \<not> isinf v)
          \<and> series_sum [Fin 300, Fin 100, Fin 600] \<noteq> Fin 0
          \<longrightarrow> share_sum = Fin 100"
    using undernourishment_shares_sum_to_100[OF g1 g2] by blast
  have "burden_sum = Fin 100" and "share_sum = Fin 100"
    using b p s by simp_all
  then show ?thesis
    using r g1 g2 s c by simp
qed

text \<open>
  C4 as stated fails on a table whose only row has 0 undernourished people among 100: the
  total is 0, the share is \<open>0 / 0\<close>, and the burden shares sum to 0, not to 100, while
  the population shares sum to 100.
\<close>

theorem undernourishment_zero_total_counterexample:
  "getnum und_none_undernourished ''Undernourished-People'' = Inr [Fin 0]
   \<and> getnum und_none_undernourished ''Population'' = Inr [Fin 100]
   \<and> column_after (map_sum id fst (process_undernourishment_data und_none_undernourished))
        ''Global_Burden_Share'' = Inr [Num NaN]
   \<and> share_sums und_none_undernourished = Inr (Fin 0, Fin 100)"
  by (simp add: und_eval_defs eval_defs)

section \<open>Food price filter: properties\<close>

lemmas food_eval_defs =
  process_food_data_def astype_int_col_def price_ok_def food_cols_def food_row_def
  food_raw_def sample_castlib_def int64_range_def trunc_zero_def Let_def

lemma getitem_length: "getitem df name = Inr cs \<Longrightarrow> length cs = length (rows df)"
  by (auto simp: getitem_def split: if_splits)

lemma astype_int_col_Inr:
  assumes "astype_int_col C df name = Inr df'" and "name' \<noteq> name"
  shows "map (\<lambda>r. r name') (rows df') = map (\<lambda>r. r name') (rows df)"
proof -
  from assms(1) obtain cs ns where
    g: "getitem df name = Inr cs" and
    a: "all_res (map (astype_int C) cs) = Inr ns" and
    d: "df' = setnum df name (map (\<lambda>n. Fin (of_int n)) ns)"
    unfolding astype_int_col_def by (elim bind_res_InrE Inr_inject) blast
  have "length ns = length (rows df)"
    using all_res_map_D(1)[OF a] getitem_length[OF g] by simp
  then show ?thesis
    unfolding d setnum_def using map_proj_setitem_other[OF assms(2)] by simp
qed

lemma filter_rows_by_column:
  "map fst (filter (\<lambda>(r, p). P p) (zip rs (map f rs))) = filter (\<lambda>r. P (f r)) rs"
  by (induction rs) auto

lemma price_ok_iff: "price_ok p \<longleftrightarrow> \<not> isna p \<and> flt (Fin 0) p"
  by (simp add: price_ok_def fgt_def)

text \<open>
  C5. Every row of the Food Price Filter's output has a present \<open>price-paid\<close> that is
  strictly greater than 0, and the prices of the output are the prices of the input that
  are present and positive, in order: no other row survives.
\<close>

theorem food_filter_positive_prices:
  assumes "process_food_data C food = Inr out"
  shows "(\<forall>r \<in> set (rows out). \<exists>p. r ''price-paid'' = Num p \<and> \<not> isna p \<and> flt (Fin 0) p)
       \<and> map (\<lambda>r. r ''price-paid'') (rows out)
           = filter (\<lambda>c. price_ok (numval c)) (map (\<lambda>r. r ''price-paid'') (rows food))"
proof -
  from assms obtain price food2 where
    g: "getnum food ''price-paid'' = Inr price" and
    y: "astype_int_col C (food\<lparr>rows := map fst (filter (\<lambda>(r, p). price_ok p) (zip (rows food) price))\<rparr>)
          ''year-recorded'' = Inr food2" and
    m: "astype_int_col C food2 ''month-recorded'' = Inr out"
    unfolding process_food_data_def Let_def by (elim bind_res_InrE) blast
  have rows1: "map fst (filter (\<lambda>(r, p). price_ok p) (zip (rows food) price))
                 = filter (\<lambda>r. price_ok (numval (r ''price-paid''))) (rows food)"
    unfolding getnum_numval[OF g] by (rule filter_rows_by_column)
  have "map (\<lambda>r. r ''price-paid'') (rows out) = map (\<lambda>r. r ''price-paid'') (rows food2)"
    by (rule astype_int_col_Inr[OF m]) simp
  also have "\<dots> = map (\<lambda>r. r ''price-paid'')
                     (filter (\<lambda>r. price_ok (numval (r ''price-paid''))) (rows food))"
    using astype_int_col_Inr[OF y, of "''price-paid''"] rows1 by simp
  also have "\<dots> = filter (\<lambda>c. price_ok (numval c)) (map (\<lambda>r. r ''price-paid'') (rows food))"
    by (simp add: filter_map o_def)
  finally have eq: "map (\<lambda>r. r ''price-paid'') (rows out)
        = filter (\<lambda>c. price_ok (numval c)) (map (\<lambda>r. r ''price-paid'') (rows food))" .
  have "\<forall>r \<in> set (rows out). \<exists>p. r ''price-paid'' = Num p \<and> \<not> isna p \<and> flt (Fin 0) p"
  proof
    fix r assume "r \<in> set (rows out)"
    then have "r ''price-paid'' \<in> set (map (\<lambda>r. r ''price-paid'') (rows out))"
      by simp
    then have "r ''price-paid'' \<in> set (map (\<lambda>r. r ''price-paid'') (rows food))"
      and ok: "price_ok (numval (r ''price-paid''))"
      unfolding eq by simp_all
    then obtain r0 where "r0 \<in> set (rows food)" and "r ''price-paid'' = r0 ''price-paid''"
      by auto
    then have "r ''price-paid'' = Num (numval (r ''price-paid''))"
      using getnum_cells[OF g] by simp
    then show "\<exists>p. r ''price-paid'' = Num p \<and> \<not> isna p \<and> flt (Fin 0) p"
      using ok price_ok_iff by blast
  qed
  then show ?thesis using eq by simp
qed

text \<open>
  Six raw rows with the prices 10, missing, 12, 0, -3 and 4.5: three survive.
\<close>

lemma food_raw_ok: "\<exists>out. process_food_data sample_castlib food_raw = Inr out"
  by (simp add: food_eval_defs eval_defs)

theorem food_filter_positive_prices_witness:
  "getitem food_raw ''price-paid''
     = Inr [Num (Fin 10), Num NaN, Num (Fin 12), Num (Fin 0), Num (Fin (- 3)), Num (Fin (9 / 2))]
   \<and> column_after (process_food_data sample_castlib food_raw) ''price-paid''
     = Inr [Num (Fin 10), Num (Fin 12), Num (Fin (9 / 2))]
   \<and> column_after (process_food_data sample_castlib food_raw) ''year-recorded''
     = Inr [Num (Fin 2019), Num (Fin 2020), Num (Fin 2021)]"
proof -
  obtain out where ok: "process_food_data sample_castlib food_raw = Inr out"
    using food_raw_ok by blast
  have vals: "getitem food_raw ''price-paid''
     = Inr [Num (Fin 10), Num NaN, Num (Fin 12), Num (Fin 0), Num (Fin (- 3)), Num (Fin (9 / 2))]
   \<and> column_after (process_food_data sample_castlib food_raw) ''price-paid''
     = Inr [Num (Fin 10), Num (Fin 12), Num (Fin (9 / 2))]
   \<and> column_after (process_food_data sample_castlib food_raw) ''year-recorded''
     = Inr [Num (Fin 2019), Num (Fin 2020), Num (Fin 2021)]"
    by (simp add: food_eval_defs eval_defs)
  show ?thesis
    using food_filter_positive_prices[OF ok] vals by simp
qed

section \<open>Cross-table joiner: properties\<close>

lemma normalise_col_Inr:
  assumes "normalise_col S df name = Inr df'"
  shows "rows df' = map (\<lambda>r. r(name := normalise_name S (r name))) (rows df)"
    and "set (columns df') = set (columns df)"
proof -
  have in_cols: "name \<in> set (columns df)"
    using assms by (auto simp: normalise_col_def bind_res_Inr getitem_def split: if_splits)
  then have df': "df' = setitem df name (map (\<lambda>r. normalise_name S (r name)) (rows df))"
    using assms by (auto simp: normalise_col_def bind_res_Inr getitem_def o_def)
  show "rows df' = map (\<lambda>r. r(name := normalise_name S (r name))) (rows df)"
    unfolding df' by (rule rows_setitem_map)
  show "set (columns df') = set (columns df)"
    unfolding df' using in_cols by (auto simp: columns_setitem set_add_column)
qed

lemma zip3_map_same:
  "zip (map f xs) (zip (map g xs) (map h xs)) = map (\<lambda>x. (f x, g x, h x)) xs"
  by (induction xs) auto

lemma merged_df_steps:
  assumes "merged_df S country food = Inr out"
  obtains country_clean trends where
    "normalise_col S country ''Country'' = Inr country_clean" and
    "food_trends S food = Inr trends" and
    "rows out = map score_row (rows (merge_inner country_clean trends))" and
    "\<forall>r \<in> set (rows (merge_inner country_clean trends)).
        r ''Fert-Rate'' = Num (numval (r ''Fert-Rate''))
      \<and> r ''Density'' = Num (numval (r ''Density''))"
proof -
  from assms obtain country_clean trends where
    n: "normalise_col S country ''Country'' = Inr country_clean" and
    t: "food_trends S food = Inr trends" and
    rest: "(if ''avg_food_inflation'' \<in> set (columns country_clean) then Inl KeyError
     else
       let m = merge_inner country_clean trends in
       bind_res (getnum m ''Fert-Rate'') (\<lambda>fert.
       bind_res (getnum m ''Density'') (\<lambda>dens.
       bind_res (getnum m ''avg_food_inflation'') (\<lambda>infl.
       Inr (setnum m ''poverty_risk_score''
              (map (\<lambda>(f, d, a). risk_score f d a) (zip fert (zip dens infl)))))))) = Inr out"
    unfolding merged_df_def by (elim bind_res_InrE) blast
  define m where "m = merge_inner country_clean trends"
  have rest': "bind_res (getnum m ''Fert-Rate'') (\<lambda>fert.
       bind_res (getnum m ''Density'') (\<lambda>dens.
       bind_res (getnum m ''avg_food_inflation'') (\<lambda>infl.
       Inr (setnum m ''poverty_risk_score''
              (map (\<lambda>(f, d, a). risk_score f d a) (zip fert (zip dens infl))))))) = Inr out"
    using rest unfolding m_def Let_def by (simp split: if_splits)
  then obtain fert dens infl where
    g1: "getnum m ''Fert-Rate'' = Inr fert" and
    g2: "getnum m ''Density'' = Inr dens" and
    g3: "getnum m ''avg_food_inflation'' = Inr infl" and
    out: "out = setnum m ''poverty_risk_score''
              (map (\<lambda>(f, d, a). risk_score f d a) (zip fert (zip dens infl)))"
    by (elim bind_res_InrE Inr_inject) blast
  have "out = setnum m ''poverty_risk_score''
      (map (\<lambda>r. risk_score (numval (r ''Fert-Rate'')) (numval (r ''Density''))
                (numval (r ''avg_food_inflation''))) (rows m))"
    unfolding out getnum_numval[OF g1] getnum_numval[OF g2] getnum_numval[OF g3]
    by (simp add: zip3_map_same o_def)
  then have rows: "rows out = map score_row (rows m)"
    by (simp add: rows_setnum_map score_row_def)
  have cells: "\<forall>r \<in> set (rows m).
        r ''Fert-Rate'' = Num (numval (r ''Fert-Rate''))
      \<and> r ''Density'' = Num (numval (r ''Density''))"
    using getnum_cells[OF g1] getnum_cells[OF g2] by blast
  show ?thesis
    using that[OF n t] rows cells unfolding m_def by blast
qed

lemma merge_inner_row:
  assumes "r \<in> set (rows (merge_inner left trends))"
  obtains l c a where "l \<in> set (rows left)" and "(c, a) \<in> set trends"
    and "l ''Country'' = Str c"
    and "r = l(''country-name'' := Str c, ''avg_food_inflation'' := Num a)"
  using assms by (auto simp: merge_inner_def)

text \<open>
  C2. Every row of the joiner's output carries numeric \<open>Fert-Rate\<close>, \<open>Density\<close> and
  \<open>avg_food_inflation\<close>, the last being the average food inflation of the row's
  country, and its score is
  \<open>Fert-Rate * 0.3 + (Density / 1000) * 0.2 + abs(avg_food_inflation) * 0.5\<close>.
\<close>

theorem poverty_risk_score_formula:
  assumes "merged_df S country food = Inr out" and "r \<in> set (rows out)"
  shows "\<exists>f d a. r ''Fert-Rate'' = Num f \<and> r ''Density'' = Num d
           \<and> r ''avg_food_inflation'' = Num a
           \<and> r ''poverty_risk_score''
               = Num (fadd (fadd (fmul f (Fin (3 / 10))) (fmul (fdiv d (Fin 1000)) (Fin (2 / 10))))
                           (fmul (fabs a) (Fin (5 / 10))))
           \<and> (\<forall>x y z. f = Fin x \<and> d = Fin y \<and> a = Fin z \<longrightarrow>
                 r ''poverty_risk_score''
                   = Num (Fin (x * (3 / 10) + y / 1000 * (2 / 10) + \<bar>z\<bar> * (5 / 10))))
           \<and> (\<exists>c trends. food_trends S food = Inr trends \<and> r ''Country'' = Str c
                 \<and> (c, a) \<in> set trends)"
proof -
  obtain country_clean trends where
    t: "food_trends S food = Inr trends" and
    rows: "rows out = map score_row (rows (merge_inner country_clean trends))" and
    cells: "\<forall>r \<in> set (rows (merge_inner country_clean trends)).
        r ''Fert-Rate'' = Num (numval (r ''Fert-Rate''))
      \<and> r ''Density'' = Num (numval (r ''Density''))"
    by (rule merged_df_steps[OF assms(1)])
  from assms(2) obtain r0 where r0: "r0 \<in> set (rows (merge_inner country_clean trends))"
    and r: "r = score_row r0"
    unfolding rows by auto
  obtain l c a where ca: "(c, a) \<in> set trends" and lc: "l ''Country'' = Str c"
    and r0': "r0 = l(''country-name'' := Str c, ''avg_food_inflation'' := Num a)"
    by (rule merge_inner_row[OF r0])
  define f where "f = numval (r0 ''Fert-Rate'')"
  define d where "d = numval (r0 ''Density'')"
  have c0: "r0 ''Fert-Rate'' = Num f" "r0 ''Density'' = Num d"
    using cells r0 unfolding f_def d_def by simp_all
  have a0: "r0 ''avg_food_inflation'' = Num a" and k0: "r0 ''Country'' = Str c"
    unfolding r0' using lc by simp_all
  have 1: "r ''Fert-Rate'' = Num f" and 2: "r ''Density'' = Num d"
    and 3: "r ''avg_food_inflation'' = Num a" and 5: "r ''Country'' = Str c"
    unfolding r score_row_def using c0 a0 k0 by simp_all
  have 4: "r ''poverty_risk_score'' = Num (risk_score f d a)"
    unfolding r score_row_def using c0 a0 by simp
  have 6: "\<forall>x y z. f = Fin x \<and> d = Fin y \<and> a = Fin z \<longrightarrow>
                 r ''poverty_risk_score''
                   = Num (Fin (x * (3 / 10) + y / 1000 * (2 / 10) + \<bar>z\<bar> * (5 / 10)))"
    unfolding 4 by (simp add: risk_score_def)
  have 7: "\<exists>c trends. food_trends S food = Inr trends \<and> r ''Country'' = Str c
                 \<and> (c, a) \<in> set trends"
    using t 5 ca by blast
  show ?thesis
    using 1 2 3 4[unfolded risk_score_def] 6 7 by blast
qed

text \<open>
  India in the sample tables: yearly means 12, 15, 12, so the changes are 25 and -20
  percent and their mean is 2.5; the score is 0.75 + 0.08 + 1.25.
\<close>

theorem poverty_risk_score_formula_witness:
  "food_trends sample_strlib food_sample = Inr [(''india'', Fin (5 / 2))]
   \<and> column_after (merged_df sample_strlib country_sample food_sample) ''Country'' = Inr [Str ''india'']
   \<and> column_after (merged_df sample_strlib country_sample food_sample) ''Fert-Rate'' = Inr [Num (Fin (5 / 2))]
   \<and> column_after (merged_df sample_strlib country_sample food_sample) ''Density'' = Inr [Num (Fin 400)]
   \<and> column_after (merged_df sample_strlib country_sample food_sample) ''avg_food_inflation''
       = Inr [Num (Fin (5 / 2))]
   \<and> column_after (merged_df sample_strlib country_sample food_sample) ''poverty_risk_score''
       = Inr [Num (Fin (52 / 25))]"
proof -
  have vals: "food_trends sample_strlib food_sample = Inr [(''india'', Fin (5 / 2))]
   \<and> column_after (merged_df sample_strlib country_sample food_sample) ''Country'' = Inr [Str ''india'']
   \<and> column_after (merged_df sample_strlib country_sample food_sample) ''Fert-Rate'' = Inr [Num (Fin (5 / 2))]
   \<and> column_after (merged_df sample_strlib country_sample food_sample) ''Density'' = Inr [Num (Fin 400)]
   \<and> column_after (merged_df sample_strlib country_sample food_sample) ''avg_food_inflation''
       = Inr [Num (Fin (5 / 2))]
   \<and> column_after (merged_df sample_strlib country_sample food_sample) ''poverty_risk_score''
       = Inr [Num (Fin (52 / 25))]"
    by code_simp
  obtain out where ok: "merged_df sample_strlib country_sample food_sample = Inr out"
    using conjunct1[OF conjunct2[OF vals]] column_after_Inr_D by blast
  have "merged_count sample_strlib country_sample food_sample = Inr 1"
    by code_simp
  then have "length (rows out) = 1"
    using ok by (simp add: merged_count_def bind_res_def)
  then have mem: "rows out ! 0 \<in> set (rows out)"
    by simp
  show ?thesis
    using poverty_risk_score_formula[OF ok mem] vals by simp
qed

lemma length_filter_key_le_1:
  assumes "distinct (map fst trends)"
  shows "length (filter (\<lambda>(c, a). k = Str c) trends) \<le> 1"
  using assms
proof (induction trends)
  case Nil
  then show ?case by simp
next
  case (Cons t trends)
  obtain c a where t: "t = (c, a)" by (cases t)
  show ?case
  proof (cases "k = Str c")
    case True
    then have "filter (\<lambda>(c', a'). k = Str c') trends = []"
      using Cons.prems t by (force simp: filter_empty_conv)
    then show ?thesis using True t by simp
  next
    case False
    then show ?thesis using Cons t by simp
  qed
qed

lemma length_concat_le:
  assumes "\<forall>l \<in> set ls. length (g l) \<le> 1"
  shows "length (concat (map g ls)) \<le> length ls"
  using assms by (induction ls) auto

lemma length_filter_disj:
  assumes "\<forall>x \<in> set xs. \<not> (P x \<and> Q x)"
  shows "length (filter P xs) + length (filter Q xs) = length (filter (\<lambda>x. P x \<or> Q x) xs)"
  using assms by (induction xs) auto

lemma length_concat_filter_distinct:
  assumes "distinct (map key ls)"
  shows "length (concat (map (\<lambda>l. filter (\<lambda>t. key l = h t) ts) ls))
           = length (filter (\<lambda>t. h t \<in> key ` set ls) ts)"
  using assms
proof (induction ls)
  case Nil
  then show ?case by simp
next
  case (Cons l ls)
  have disj: "\<forall>t \<in> set ts. \<not> (key l = h t \<and> h t \<in> key ` set ls)"
    using Cons.prems by auto
  have "length (concat (map (\<lambda>l. filter (\<lambda>t. key l = h t) ts) (l # ls)))
          = length (filter (\<lambda>t. key l = h t) ts) + length (filter (\<lambda>t. h t \<in> key ` set ls) ts)"
    using Cons by simp
  also have "\<dots> = length (filter (\<lambda>t. key l = h t \<or> h t \<in> key ` set ls) ts)"
    by (rule length_filter_disj[OF disj])
  also have "\<dots> = length (filter (\<lambda>t. h t \<in> key ` set (l # ls)) ts)"
    by (rule arg_cong[where f = length], rule filter_cong) auto
  finally show ?case .
qed

lemma length_merge_inner:
  "length (rows (merge_inner left trends))
     = length (concat (map (\<lambda>l. filter (\<lambda>t. l ''Country'' = Str (fst t)) trends) (rows left)))"
  by (simp add: merge_inner_def length_concat o_def case_prod_unfold)

lemma distinct_groupby_agg: "distinct (map fst (groupby_agg f kvs))"
  by (simp add: groupby_agg_def o_def)

lemma set_groupby_agg: "set (map fst (groupby_agg f kvs)) = set (map fst kvs)"
  by (simp add: groupby_agg_def o_def)

lemma group_key_Some: "group_key c = Inr (Some s) \<Longrightarrow> c = Str s"
  by (cases c rule: group_key.cases) auto

lemma keyed_values_keys:
  assumes "keyed_values df kcol ycol vcol = Inr recs" and "(s, y, v) \<in> set recs"
  shows "Str s \<in> set (map (\<lambda>r. r kcol) (rows df))"
proof -
  from assms(1) obtain ks keys ys vs where
    g: "getitem df kcol = Inr ks" and
    a: "all_res (map group_key ks) = Inr keys" and
    r: "recs = concat (map (\<lambda>(k, y, v). case k of None \<Rightarrow> []
                                  | Some s \<Rightarrow> if isna y then [] else [(s, y, v)])
                      (zip keys (zip ys vs)))"
    unfolding keyed_values_def by (elim bind_res_InrE Inr_inject) blast
  from assms(2) obtain k y' v' where z: "(k, y', v') \<in> set (zip keys (zip ys vs))"
    and m: "(s, y, v) \<in> set (case k of None \<Rightarrow> [] | Some s \<Rightarrow> if isna y' then [] else [(s, y', v')])"
    unfolding r by auto
  have k: "k = Some s"
    using m by (cases k) (auto split: if_splits)
  have "Some s \<in> set keys"
    using z k by (auto dest: set_zip_leftD)
  then have "Inr (Some s) \<in> set (map group_key ks)"
    using a by (simp add: all_res_Inr)
  then obtain c where "c \<in> set ks" and "group_key c = Inr (Some s)"
    by auto
  then have "Str s \<in> set ks"
    using group_key_Some by auto
  moreover have "ks = map (\<lambda>r. r kcol) (rows df)"
    using g by (auto simp: getitem_def split: if_splits)
  ultimately show ?thesis by simp
qed

lemma groupby2_mean_keys:
  assumes "k \<in> set (map fst (groupby2_mean recs))"
  shows "\<exists>y v. (k, y, v) \<in> set recs"
  using assms by (force simp: groupby2_mean_def)

lemma food_trends_keys:
  assumes "food_trends S food = Inr trends"
  shows "distinct (map fst trends)"
    and "\<forall>c \<in> set (map fst trends). Str c \<in> set (normalised_names S food ''country-name'')"
proof -
  from assms obtain food_clean recs where
    n: "normalise_col S food ''country-name'' = Inr food_clean" and
    k: "keyed_values food_clean ''country-name'' ''year-recorded'' ''price-paid'' = Inr recs" and
    t: "trends = groupby_agg series_mean
          (zip (map fst (groupby2_mean recs))
               (map (\<lambda>v. fmul v (Fin 100))
                  (grp_pct_change Map.empty (map (\<lambda>(k, y, m). (k, m)) (groupby2_mean recs)))))"
    unfolding food_trends_def Let_def by (elim bind_res_InrE Inr_inject) blast
  show "distinct (map fst trends)"
    unfolding t by (rule distinct_groupby_agg)
  show "\<forall>c \<in> set (map fst trends). Str c \<in> set (normalised_names S food ''country-name'')"
  proof
    fix c assume "c \<in> set (map fst trends)"
    then have "c \<in> set (map fst (groupby2_mean recs))"
      unfolding t set_groupby_agg by (auto dest: set_zip_leftD)
    then obtain y v where "(c, y, v) \<in> set recs"
      using groupby2_mean_keys by blast
    then have "Str c \<in> set (map (\<lambda>r. r ''country-name'') (rows food_clean))"
      by (rule keyed_values_keys[OF k])
    then show "Str c \<in> set (normalised_names S food ''country-name'')"
      unfolding normalise_col_Inr(1)[OF n] normalised_names_def by (simp add: o_def)
  qed
qed

text \<open>
  C9, as amended. Whatever Python's \<open>strip\<close> and \<open>lower\<close> do to a name, the joiner's
  output has at most as many rows as the Country table; when the names of the Country
  table, normalised by these two, are pairwise distinct it has at most
  min(number of Country rows, number of distinct countries with food data) rows; and the
  country of every output row is a normalised name of both inputs.
\<close>

theorem merged_row_count:
  assumes "merged_df S country food = Inr out"
  shows "\<exists>trends. food_trends S food = Inr trends \<and> distinct (map fst trends)
           \<and> length (rows out) \<le> length (rows country)
           \<and> (distinct (normalised_names S country ''Country'')
                \<longrightarrow> length (rows out) \<le> min (length (rows country)) (length trends))
           \<and> (\<forall>r \<in> set (rows out). \<exists>c. r ''Country'' = Str c
                 \<and> c \<in> set (map fst trends)
                 \<and> Str c \<in> set (normalised_names S country ''Country'')
                 \<and> Str c \<in> set (normalised_names S food ''country-name''))"
proof -
  obtain country_clean trends where
    n: "normalise_col S country ''Country'' = Inr country_clean" and
    t: "food_trends S food = Inr trends" and
    rows: "rows out = map score_row (rows (merge_inner country_clean trends))"
    by (rule merged_df_steps[OF assms])
  have d: "distinct (map fst trends)"
    by (rule food_trends_keys(1)[OF t])
  have rc: "rows country_clean
              = map (\<lambda>r. r(''Country'' := normalise_name S (r ''Country''))) (rows country)"
    by (rule normalise_col_Inr(1)[OF n])
  have keys: "map (\<lambda>l. l ''Country'') (rows country_clean) = normalised_names S country ''Country''"
    unfolding rc normalised_names_def by (simp add: o_def)
  have len: "length (rows out)
      = length (concat (map (\<lambda>l. filter (\<lambda>t. l ''Country'' = Str (fst t)) trends)
                            (rows country_clean)))"
    unfolding rows by (simp add: length_merge_inner)
  have "\<forall>l \<in> set (rows country_clean).
          length (filter (\<lambda>t. l ''Country'' = Str (fst t)) trends) \<le> 1"
    using length_filter_key_le_1[OF d] by (simp add: case_prod_unfold)
  then have "length (rows out) \<le> length (rows country_clean)"
    unfolding len by (rule length_concat_le)
  then have le1: "length (rows out) \<le> length (rows country)"
    unfolding rc by simp
  have le2: "distinct (normalised_names S country ''Country'')
                \<longrightarrow> length (rows out) \<le> min (length (rows country)) (length trends)"
  proof
    assume "distinct (normalised_names S country ''Country'')"
    then have "distinct (map (\<lambda>l. l ''Country'') (rows country_clean))"
      unfolding keys .
    then have "length (rows out)
        = length (filter (\<lambda>t. Str (fst t) \<in> (\<lambda>l. l ''Country'') ` set (rows country_clean)) trends)"
      unfolding len by (rule length_concat_filter_distinct)
    then have "length (rows out) \<le> length trends"
      by simp
    then show "length (rows out) \<le> min (length (rows country)) (length trends)"
      using le1 by simp
  qed
  have mem: "\<forall>r \<in> set (rows out). \<exists>c. r ''Country'' = Str c
                 \<and> c \<in> set (map fst trends)
                 \<and> Str c \<in> set (normalised_names S country ''Country'')
                 \<and> Str c \<in> set (normalised_names S food ''country-name'')"
  proof
    fix r assume "r \<in> set (rows out)"
    then obtain r0 where r0: "r0 \<in> set (rows (merge_inner country_clean trends))"
      and r: "r = score_row r0"
      unfolding rows by auto
    obtain l c a where l: "l \<in> set (rows country_clean)" and ca: "(c, a) \<in> set trends"
      and lc: "l ''Country'' = Str c"
      and r0': "r0 = l(''country-name'' := Str c, ''avg_food_inflation'' := Num a)"
      by (rule merge_inner_row[OF r0])
    have 1: "r ''Country'' = Str c"
      unfolding r score_row_def r0' using lc by simp
    have 2: "c \<in> set (map fst trends)"
      using ca by force
    have "l ''Country'' \<in> set (map (\<lambda>l. l ''Country'') (rows country_clean))"
      using l by simp
    then have 3: "Str c \<in> set (normalised_names S country ''Country'')"
      unfolding keys lc .
    have 4: "Str c \<in> set (normalised_names S food ''country-name'')"
      using food_trends_keys(2)[OF t] 2 by blast
    show "\<exists>c. r ''Country'' = Str c
                 \<and> c \<in> set (map fst trends)
                 \<and> Str c \<in> set (normalised_names S country ''Country'')
                 \<and> Str c \<in> set (normalised_names S food ''country-name'')"
      using 1 2 3 4 by blast
  qed
  show ?thesis
    using t d le1 le2 mem by blast
qed

text \<open>The sample tables: five countries, one of them with food data.\<close>

theorem merged_row_count_witness:
  "distinct (normalised_names sample_strlib country_sample ''Country'')
   \<and> length (rows country_sample) = 5
   \<and> food_country_count sample_strlib food_sample = Inr 1
   \<and> merged_count sample_strlib country_sample food_sample = Inr 1"
proof -
  have vals: "merged_count sample_strlib country_sample food_sample = Inr 1
   \<and> food_country_count sample_strlib food_sample = Inr 1
   \<and> length (rows country_sample) = 5
   \<and> distinct (normalised_names sample_strlib country_sample ''Country'')"
    by code_simp
  obtain out where ok: "merged_df sample_strlib country_sample food_sample = Inr out"
    using conjunct1[OF vals] by (cases "merged_df sample_strlib country_sample food_sample")
      (simp_all add: merged_count_def bind_res_def)
  show ?thesis
    using merged_row_count[OF ok] vals by simp
qed

text \<open>
  C9 as stated fails when two Country rows share a normalised name: \<open>India\<close> and
  \<open> india \<close>, two ASCII names that every \<open>strip\<close> and \<open>lower\<close> of Python fold
  to \<open>india\<close>, both join the one country with food data, which gives 2 rows against a
  bound of min(2, 1) = 1.
\<close>

theorem merged_row_count_duplicate_counterexample:
  "length (rows country_duplicate) = 2
   \<and> food_country_count sample_strlib food_sample = Inr 1
   \<and> merged_count sample_strlib country_duplicate food_sample = Inr 2
   \<and> min (2::nat) 1 < 2"
  by code_simp

section \<open>Aggregation utilities: properties\<close>

lemma fkey_inj: "fkey a = fkey b \<Longrightarrow> a = b"
  by (cases a; cases b; simp)

lemma inj_fkey: "inj fkey"
  by (rule injI) (rule fkey_inj)

lemma sorted_same_fst:
  "sorted (map (\<lambda>y. (k, g y)) ys) \<longleftrightarrow> sorted (map g ys)"
  by (induction ys) (auto simp: less_eq_prod_def)

lemma group_keys_years:
  fixes K :: "(string \<times> fval) list"
  assumes "sorted (map (\<lambda>(k, y). (k, fkey y)) K)" and "distinct K"
  shows "sorted (map fkey (map snd (filter (\<lambda>(k', y). k' = k) K)))"
    and "distinct (map snd (filter (\<lambda>(k', y). k' = k) K))"
proof -
  define ys where "ys = map snd (filter (\<lambda>(k', y). k' = k) K)"
  have "map (\<lambda>y. (k, y)) (map snd (filter (\<lambda>(k', y). k' = k) K))
          = filter (\<lambda>(k', y). k' = k) K"
    by (induction K) auto
  then have eq: "filter (\<lambda>(k', y). k' = k) K = map (\<lambda>y. (k, y)) ys"
    unfolding ys_def by (rule sym)
  have "sorted (map (\<lambda>(k, y). (k, fkey y)) (filter (\<lambda>(k', y). k' = k) K))"
    using assms(1) by (rule sorted_filter)
  then have "sorted (map (\<lambda>y. (k, fkey y)) ys)"
    unfolding eq by (simp add: o_def)
  then have "sorted (map fkey ys)"
    using sorted_same_fst[of k fkey ys] by blast
  then show "sorted (map fkey (map snd (filter (\<lambda>(k', y). k' = k) K)))"
    unfolding ys_def .
  have "distinct (filter (\<lambda>(k', y). k' = k) K)"
    using assms(2) by simp
  then have "distinct (map (\<lambda>y. (k, y)) ys)"
    unfolding eq .
  then have "distinct ys"
    by (simp add: distinct_map)
  then show "distinct (map snd (filter (\<lambda>(k', y). k' = k) K))"
    unfolding ys_def .
qed

lemma sorted_distinct_fkey_unique:
  assumes "sorted (map fkey xs)" and "distinct xs"
    and "sorted (map fkey ys)" and "distinct ys" and "set xs = set ys"
  shows "xs = ys"
proof -
  have "distinct (map fkey xs)" "distinct (map fkey ys)"
    using assms(2,4) inj_fkey by (simp_all add: distinct_map inj_on_def fkey_inj)
  moreover have "set (map fkey xs) = set (map fkey ys)"
    using assms(5) by simp
  ultimately have "map fkey xs = map fkey ys"
    using assms(1,3) sorted_distinct_set_unique[of "map fkey xs" "map fkey ys"] by blast
  then show ?thesis
    using inj_fkey by (simp add: inj_map_eq_map)
qed

lemma group_years_of_keys:
  "map snd (filter (\<lambda>(k', y). k' = k)
       (sort_key (\<lambda>(k, y). (k, fkey y)) (remdups (map (\<lambda>(k, y, v). (k, y)) recs))))
     = group_years recs k"
proof (rule sorted_distinct_fkey_unique)
  let ?K = "sort_key (\<lambda>(k, y). (k, fkey y)) (remdups (map (\<lambda>(k, y, v). (k, y)) recs))"
  have s: "sorted (map (\<lambda>(k, y). (k, fkey y)) ?K)" by (rule sorted_sort_key)
  have d: "distinct ?K" by simp
  show "sorted (map fkey (map snd (filter (\<lambda>(k', y). k' = k) ?K)))"
    by (rule group_keys_years(1)[OF s d])
  show "distinct (map snd (filter (\<lambda>(k', y). k' = k) ?K))"
    by (rule group_keys_years(2)[OF s d])
  show "sorted (map fkey (group_years recs k))"
    unfolding group_years_def by (rule sorted_sort_key)
  show "distinct (group_years recs k)"
    unfolding group_years_def by simp
  have "set (map snd (filter (\<lambda>(k', y). k' = k) ?K)) = {y. \<exists>v. (k, y, v) \<in> set recs}"
    by (auto simp: image_iff; force)
  moreover have "set (group_years recs k) = {y. \<exists>v. (k, y, v) \<in> set recs}"
    unfolding group_years_def by (auto simp: image_iff)
  ultimately show "set (map snd (filter (\<lambda>(k', y). k' = k) ?K)) = set (group_years recs k)"
    by simp
qed

lemma groupby2_mean_group:
  "map snd (filter (\<lambda>(k', m). k' = k) (map (\<lambda>(k, y, m). (k, m)) (groupby2_mean recs)))
     = map (year_mean recs k) (group_years recs k)"
proof -
  let ?K = "sort_key (\<lambda>(k, y). (k, fkey y)) (remdups (map (\<lambda>(k, y, v). (k, y)) recs))"
  have a: "map (\<lambda>(k, y, m). (k, m)) (groupby2_mean recs)
          = map (\<lambda>(k, y). (k, year_mean recs k y)) ?K"
    by (simp add: groupby2_mean_def year_mean_def o_def case_prod_unfold)
  have b: "map snd (filter (\<lambda>(k', m). k' = k) (map (\<lambda>(k, y). (k, year_mean recs k y)) K))
          = map (year_mean recs k) (map snd (filter (\<lambda>(k', y). k' = k) K))" for K
    by (induction K) auto
  show ?thesis
    unfolding a b group_years_of_keys ..
qed

lemma groupby_agg_mem:
  assumes "(k, v) \<in> set (groupby_agg f kvs)"
  shows "k \<in> set (map fst kvs)" and "v = f (map snd (filter (\<lambda>(k', v). k' = k) kvs))"
  using assms by (auto simp: groupby_agg_def)

lemma price_change_agg_map:
  assumes "ys \<noteq> []"
  shows "price_change_agg (map f ys)
           = (if 1 < length ys then fsub (f (last ys)) (f (hd ys)) else Fin 0)"
  using assms by (simp add: price_change_agg_def last_map hd_map)

lemma deep_dive_finite:
  assumes "x \<noteq> []" and "hd x = Fin a" and "last x = Fin b" and "a \<noteq> 0"
  shows "deep_dive_price_change x = Inr (Fin ((b / a - 1) * 100))"
  using assms by (simp add: deep_dive_price_change_def fsub_def)

text \<open>
  C8, as amended. The price change of a commodity is the difference
  \<open>last - first\<close> of its yearly mean prices, the mean of its last recorded year minus
  the mean of its first, when it has at least two yearly points, and the sentinel 0 when
  it has one. The ratio \<open>last / first - 1\<close>, times 100, is the price change of the
  country deep dive, on a series that is not empty.
\<close>

theorem commodity_price_change:
  assumes "keyed_values food ''comm-purchased'' ''year-recorded'' ''price-paid'' = Inr recs"
    and "price_change food = Inr tbl"
    and "(k, v) \<in> set tbl"
  shows "group_years recs k \<noteq> []
       \<and> v = (if 1 < length (group_years recs k)
              then fsub (year_mean recs k (last (group_years recs k)))
                        (year_mean recs k (hd (group_years recs k)))
              else Fin 0)
       \<and> (\<forall>a b. 1 < length (group_years recs k)
              \<and> year_mean recs k (hd (group_years recs k)) = Fin a
              \<and> year_mean recs k (last (group_years recs k)) = Fin b
            \<longrightarrow> v = Fin (b - a))
       \<and> (\<forall>x a b. x \<noteq> [] \<and> hd x = Fin a \<and> last x = Fin b \<and> a \<noteq> 0
            \<longrightarrow> deep_dive_price_change x = Inr (Fin ((b / a - 1) * 100)))"
proof -
  define kvs where "kvs = map (\<lambda>(k, y, m). (k, m)) (groupby2_mean recs)"
  have tbl: "tbl = groupby_agg price_change_agg kvs"
    using assms(2) unfolding price_change_def assms(1) kvs_def
    by (simp add: bind_res_def Let_def)
  have mem: "k \<in> set (map fst kvs)"
    and v: "v = price_change_agg (map snd (filter (\<lambda>(k', v). k' = k) kvs))"
    using groupby_agg_mem[OF assms(3)[unfolded tbl]] by simp_all
  have grp: "map snd (filter (\<lambda>(k', v). k' = k) kvs)
               = map (year_mean recs k) (group_years recs k)"
    unfolding kvs_def by (rule groupby2_mean_group)
  have "filter (\<lambda>(k', v). k' = k) kvs \<noteq> []"
    using mem by (auto simp: filter_empty_conv)
  then have ne: "group_years recs k \<noteq> []"
    using grp by auto
  have v': "v = (if 1 < length (group_years recs k)
              then fsub (year_mean recs k (last (group_years recs k)))
                        (year_mean recs k (hd (group_years recs k)))
              else Fin 0)"
    unfolding v grp by (rule price_change_agg_map[OF ne])
  have fin: "\<forall>a b. 1 < length (group_years recs k)
              \<and> year_mean recs k (hd (group_years recs k)) = Fin a
              \<and> year_mean recs k (last (group_years recs k)) = Fin b
            \<longrightarrow> v = Fin (b - a)"
    using v' by (simp add: fsub_def)
  have dd: "\<forall>x a b. x \<noteq> [] \<and> hd x = Fin a \<and> last x = Fin b \<and> a \<noteq> 0
            \<longrightarrow> deep_dive_price_change x = Inr (Fin ((b / a - 1) * 100))"
    using deep_dive_finite by blast
  show ?thesis
    using ne v' fin dd by blast
qed

text \<open>Rice in the sample table: yearly means 10, 15 and 12.\<close>

theorem commodity_price_change_witness:
  "keyed_values food_sample ''comm-purchased'' ''year-recorded'' ''price-paid''
     = Inr food_sample_records
   \<and> price_change food_sample = Inr [(''Rice'', Fin 2), (''Wheat'', Fin 0)]
   \<and> group_years food_sample_records ''Rice'' = [Fin 2019, Fin 2020, Fin 2021]
   \<and> year_mean food_sample_records ''Rice'' (Fin 2019) = Fin 10
   \<and> year_mean food_sample_records ''Rice'' (Fin 2021) = Fin 12"
proof -
  have k: "keyed_values food_sample ''comm-purchased'' ''year-recorded'' ''price-paid''
     = Inr food_sample_records"
    by code_simp
  have p: "price_change food_sample = Inr [(''Rice'', Fin 2), (''Wheat'', Fin 0)]"
    by code_simp
  have m: "(''Rice'', Fin 2) \<in> set [(''Rice'', Fin 2), (''Wheat'', Fin 0)]"
    by simp
  have g: "group_years food_sample_records ''Rice'' = [Fin 2019, Fin 2020, Fin 2021]
   \<and> year_mean food_sample_records ''Rice'' (Fin 2019) = Fin 10
   \<and> year_mean food_sample_records ''Rice'' (Fin 2021) = Fin 12"
    by code_simp
  show ?thesis
    using commodity_price_change[OF k p m] k p g by simp
qed

text \<open>
  C8 as stated fails on the same commodity: from 10 to 12 the code gives 2, and
  \<open>last / first - 1\<close> is 0.2.
\<close>

theorem commodity_price_change_ratio_counterexample:
  "price_change food_sample = Inr [(''Rice'', Fin 2), (''Wheat'', Fin 0)]
   \<and> price_change_agg [Fin 10, Fin 15, Fin 12] = Fin 2
   \<and> fsub (fdiv (Fin 12) (Fin 10)) (Fin 1) = Fin (1 / 5)"
  by code_simp

end
